theory Spec2Isabelle
  imports Main "HOL-Library.AList"
begin

section \<open>Exceptions and outcomes of a coroutine\<close>

text \<open>
  A Python exception is a value. \<open>HTTPException status_code detail\<close> is FastAPI's
  exception; every other exception is \<open>PyError\<close> with its class name. The detail of an
  \<open>HTTPException\<close> is a literal, \<open>str(e)\<close> of a caught exception, or an f-string
  \<open>f"<prefix>{e}"\<close>; the text \<open>str(e)\<close> produces belongs to the framework and is kept
  symbolic.
\<close>

datatype exc = HTTPException nat detail | PyError string
and detail = Lit string | Str exc | Prefixed string exc

text \<open>
  A coroutine run to its end returns (\<open>Done\<close>), raises (\<open>Raise\<close>), or is suspended for
  ever (\<open>Blocked\<close>). The model runs one task, a chain of awaits, from a state in which
  no other task holds the lock; the field \<open>lock\<close> tells whether this chain holds it.
  \<open>asyncio.Lock\<close> is not reentrant and is released only by the \<open>async with\<close> block that
  took it, so an \<open>acquire\<close> inside that block is never granted: the block cannot be
  left before the awaited call returns.
\<close>

datatype 'a res = Done 'a | Raise exc | Blocked

text \<open>The dict \<open>{"room_url": .., "user_token": .., "bot_token": ..}\<close> of both pools.\<close>

record room =
  room_url :: string
  user_token :: string
  bot_token :: string

text \<open>Python truthiness of an \<open>Optional[str]\<close>: \<open>None\<close> and \<open>""\<close> are falsy.\<close>

definition truthy :: "string option \<Rightarrow> bool" where
  "truthy v = (case v of None \<Rightarrow> False | Some t \<Rightarrow> t \<noteq> [])"

definition str_val :: "string option \<Rightarrow> string" where
  "str_val v = (case v of None \<Rightarrow> [] | Some t \<Rightarrow> t)"

section \<open>voice-ai-service: utils/room\_pool.py\<close>

text \<open>
  The requests \<open>RoomPool\<close> sends to the Daily API, and what comes back: a response
  with its status and the JSON field the caller reads (\<open>result.get("url")\<close>,
  \<open>result.get("token")\<close>), or an exception of the HTTP client. The remote service is a
  parameter: it answers a request knowing the requests sent before.
\<close>

datatype http_request =
  POST_rooms
  | POST_meeting_tokens string
  | DELETE_rooms string

datatype http_response = Response nat "string option" | ClientError

type_synonym daily_api = "http_request list \<Rightarrow> http_request \<Rightarrow> http_response"

record RoomPool =
  pool :: "room list"
  lock :: bool
  pool_size :: int
  http_log :: "http_request list"
  replenish_tasks :: nat

text \<open>\<open>room_url.split("/")[-1] if room_url else ""\<close>: the text after the last slash.\<close>

definition room_name_of :: "string \<Rightarrow> string" where
  "room_name_of url = rev (takeWhile (\<lambda>c. c \<noteq> CHR ''/'') (rev url))"

definition send :: "daily_api \<Rightarrow> http_request \<Rightarrow> RoomPool \<Rightarrow> http_response \<times> RoomPool" where
  "send daily rq s = (daily (http_log s) rq, s\<lparr>http_log := http_log s @ [rq]\<rparr>)"

text \<open>\<open>RoomPool._create_room\<close>: the room URL, or \<open>None\<close> on a non-200 status or an exception.\<close>

definition priv_create_room :: "daily_api \<Rightarrow> RoomPool \<Rightarrow> string option \<times> RoomPool" where
  "priv_create_room daily s =
     (case send daily POST_rooms s of
        (Response st fld, s1) \<Rightarrow> (if st \<noteq> 200 then None else fld, s1)
      | (ClientError, s1) \<Rightarrow> (None, s1))"

text \<open>\<open>RoomPool._create_token\<close>: no request at all when the room name is empty.\<close>

definition priv_create_token ::
  "daily_api \<Rightarrow> string \<Rightarrow> RoomPool \<Rightarrow> string option \<times> RoomPool" where
  "priv_create_token daily url s =
     (let room_name = room_name_of url in
      if room_name = [] then (None, s)
      else
        (case send daily (POST_meeting_tokens room_name) s of
           (Response st fld, s1) \<Rightarrow> (if st \<noteq> 200 then None else fld, s1)
         | (ClientError, s1) \<Rightarrow> (None, s1)))"

text \<open>\<open>RoomPool._delete_room\<close>: \<open>True\<close> only on a 200 answer to the DELETE request.\<close>

definition priv_delete_room :: "daily_api \<Rightarrow> string \<Rightarrow> RoomPool \<Rightarrow> bool \<times> RoomPool" where
  "priv_delete_room daily url s =
     (let room_name = room_name_of url in
      if room_name = [] then (False, s)
      else
        (case send daily (DELETE_rooms room_name) s of
           (Response st fld, s1) \<Rightarrow> (if st \<noteq> 200 then False else True, s1)
         | (ClientError, s1) \<Rightarrow> (False, s1)))"

text \<open>\<open>RoomPool.delete_room\<close> awaits \<open>_delete_room\<close> and drops its result.\<close>

definition delete_room :: "daily_api \<Rightarrow> string \<Rightarrow> RoomPool \<Rightarrow> RoomPool" where
  "delete_room daily url s = snd (priv_delete_room daily url s)"

text \<open>
  \<open>RoomPool.add_room\<close>. The private methods catch their own exceptions, so the
  \<open>except Exception\<close> of \<open>add_room\<close> has nothing to catch. The append is under
  \<open>async with self.lock\<close>: it waits for ever when the chain already holds the lock.
\<close>

definition add_room :: "daily_api \<Rightarrow> RoomPool \<Rightarrow> unit res \<times> RoomPool" where
  "add_room daily s =
     (case priv_create_room daily s of (created, s1) \<Rightarrow>
        if \<not> truthy created then (Done (), s1)
        else
          (let url = str_val created in
           case priv_create_token daily url s1 of (utok, s2) \<Rightarrow>
           case priv_create_token daily url s2 of (btok, s3) \<Rightarrow>
             if \<not> truthy utok \<or> \<not> truthy btok
             then (Done (), delete_room daily url s3)
             else if lock s3 then (Blocked, s3)
             else (Done (),
                   s3\<lparr>pool := pool s3 @
                     [\<lparr>room_url = url, user_token = str_val utok, bot_token = str_val btok\<rparr>]\<rparr>)))"

text \<open>
  \<open>RoomPool.get_room\<close>. The whole body up to the pop runs under the lock, the
  on-demand \<open>add_room\<close> included; the lock is released when the block is left, also by
  the exception. \<open>asyncio.create_task(self.add_room())\<close> only schedules the
  replenishment.
\<close>

definition no_rooms :: exc where
  "no_rooms = HTTPException 503 (Lit ''No available rooms'')"

definition on_demand :: "daily_api \<Rightarrow> RoomPool \<Rightarrow> unit res \<times> RoomPool" where
  "on_demand daily s =
     (if pool s = [] then
        (case add_room daily s of
           (Done u, s1) \<Rightarrow> if pool s1 = [] then (Raise no_rooms, s1) else (Done (), s1)
         | (Raise e, s1) \<Rightarrow> (Raise e, s1)
         | (Blocked, s1) \<Rightarrow> (Blocked, s1))
      else (Done (), s))"

definition get_room :: "daily_api \<Rightarrow> RoomPool \<Rightarrow> room res \<times> RoomPool" where
  "get_room daily s =
     (if lock s then (Blocked, s)
      else
        (case on_demand daily (s\<lparr>lock := True\<rparr>) of
           (Done u, s1) \<Rightarrow>
             (case pool s1 of
                [] \<Rightarrow> (Raise (PyError ''IndexError''), s1\<lparr>lock := False\<rparr>)
              | r # rest \<Rightarrow>
                  (Done r, s1\<lparr>pool := rest, lock := False,
                              replenish_tasks := replenish_tasks s1 + 1\<rparr>))
         | (Raise e, s1) \<Rightarrow> (Raise e, s1\<lparr>lock := False\<rparr>)
         | (Blocked, s1) \<Rightarrow> (Blocked, s1)))"

text \<open>
  \<open>RoomPool.cleanup\<close>: one \<open>delete_room\<close> per entry, gathered (the requests leave in the
  order of the buffer), then \<open>self.pool = []\<close>.
\<close>

definition cleanup :: "daily_api \<Rightarrow> RoomPool \<Rightarrow> RoomPool" where
  "cleanup daily s =
     (fold (\<lambda>r st. delete_room daily (room_url r) st) (pool s) s)\<lparr>pool := []\<rparr>"


section \<open>voice-ai-service: src/server.py and VoiceBotManager\<close>

text \<open>
  Of \<open>VoiceBotManager\<close> the server uses the room, the token, the session id and whether
  the pipeline task exists (\<open>self.task\<close> is \<open>None\<close> until \<open>initialize\<close> has built the
  pipeline).
\<close>

record VoiceBotManager =
  bot_room_url :: string
  token :: "string option"
  session_id :: string
  task :: bool

text \<open>
  The module's globals: \<open>room_pool\<close> (\<open>None\<close> when no API key is set) and
  \<open>active_bots\<close>, a dict in insertion order. \<open>background\<close> lists the sessions handed to
  \<open>background_tasks.add_task(run_bot, bot)\<close>, \<open>cancelled\<close> the sessions whose pipeline
  task received \<open>cancel()\<close>.
\<close>

record server =
  room_pool :: "RoomPool option"
  active_bots :: "(string \<times> VoiceBotManager) list"
  background :: "string list"
  cancelled :: "string list"

datatype connect_response =
  ConnectResponse (cr_session_id: string) (cr_room_url: string) (cr_token: string)

datatype disconnect_response = DisconnectResponse (success: bool)

text \<open>
  The tail of \<open>connect\<close>'s \<open>try\<close> block, from \<open>VoiceBotManager(...)\<close> on. The session id
  is \<open>str(uuid.uuid4())\<close>, an input here. \<open>ConnectResponse\<close> requires a string token:
  without one its validation raises.
\<close>

definition start_session ::
  "string \<Rightarrow> string option \<Rightarrow> string option \<Rightarrow> string \<Rightarrow> server
     \<Rightarrow> connect_response res \<times> server" where
  "start_session url utok btok sid s =
     (let vbot = \<lparr>bot_room_url = url, token = btok, session_id = sid, task = False\<rparr>;
          s1 = s\<lparr>active_bots := AList.update sid vbot (active_bots s),
                 background := background s @ [sid]\<rparr>
      in case utok of
           None \<Rightarrow> (Raise (PyError ''ValidationError''), s1)
         | Some t \<Rightarrow> (Done (ConnectResponse sid url t), s1))"

definition connect_try ::
  "daily_api \<Rightarrow> string option \<Rightarrow> string \<Rightarrow> server \<Rightarrow> connect_response res \<times> server" where
  "connect_try daily test_room_url sid s =
     (case room_pool s of
        Some rp \<Rightarrow>
          (case get_room daily rp of
             (Done r, rp1) \<Rightarrow>
               start_session (room_url r) (Some (user_token r)) (Some (bot_token r)) sid
                 (s\<lparr>room_pool := Some rp1\<rparr>)
           | (Raise e, rp1) \<Rightarrow> (Raise e, s\<lparr>room_pool := Some rp1\<rparr>)
           | (Blocked, rp1) \<Rightarrow> (Blocked, s\<lparr>room_pool := Some rp1\<rparr>))
      | None \<Rightarrow>
          if \<not> truthy test_room_url
          then (Raise (HTTPException 500
                  (Lit ''No room pool configured and TEST_ROOM_URL not set'')), s)
          else start_session (str_val test_room_url) None None sid s)"

text \<open>
  \<open>connect\<close>: \<open>except Exception\<close> also catches the \<open>HTTPException\<close> of \<open>get_room\<close> and
  raises a 500 whose detail is \<open>str(e)\<close>.
\<close>

definition connect ::
  "daily_api \<Rightarrow> string option \<Rightarrow> string \<Rightarrow> server \<Rightarrow> connect_response res \<times> server" where
  "connect daily test_room_url sid s =
     (case connect_try daily test_room_url sid s of
        (Raise e, s1) \<Rightarrow> (Raise (HTTPException 500 (Str e)), s1)
      | (Done r, s1) \<Rightarrow> (Done r, s1)
      | (Blocked, s1) \<Rightarrow> (Blocked, s1))"

text \<open>
  \<open>run_bot\<close>: whatever \<open>initialize\<close> and \<open>run\<close> do (\<open>None\<close>: they return, \<open>Some e\<close>: one of
  them raises and the error is logged), the \<open>finally\<close> removes the session.
\<close>

definition run_bot :: "exc option \<Rightarrow> VoiceBotManager \<Rightarrow> server \<Rightarrow> server" where
  "run_bot outcome vbot s =
     (case outcome of
        None \<Rightarrow> s\<lparr>active_bots := AList.delete (session_id vbot) (active_bots s)\<rparr>
      | Some e \<Rightarrow> s\<lparr>active_bots := AList.delete (session_id vbot) (active_bots s)\<rparr>)"

text \<open>
  \<open>VoiceBotManager.disconnect\<close>; \<open>cancel\<close> tells whether \<open>self.task.cancel()\<close> raises for
  a session.
\<close>

definition bot_disconnect ::
  "(string \<Rightarrow> exc option) \<Rightarrow> VoiceBotManager \<Rightarrow> server \<Rightarrow> bool res \<times> server" where
  "bot_disconnect cancel vbot s =
     (if task vbot then
        (case cancel (session_id vbot) of None \<Rightarrow> Done True | Some e \<Rightarrow> Raise e,
         s\<lparr>cancelled := cancelled s @ [session_id vbot]\<rparr>)
      else (Done False, s))"

text \<open>\<open>disconnect\<close>: an unknown session id is answered with success at once.\<close>

definition disconnect ::
  "(string \<Rightarrow> exc option) \<Rightarrow> string \<Rightarrow> server \<Rightarrow> disconnect_response res \<times> server" where
  "disconnect cancel sid s =
     (case map_of (active_bots s) sid of
        None \<Rightarrow> (Done (DisconnectResponse True), s)
      | Some vbot \<Rightarrow>
          (case bot_disconnect cancel vbot s of (r, s1) \<Rightarrow>
             (Done (DisconnectResponse True),
              s1\<lparr>active_bots := AList.delete sid (active_bots s1)\<rparr>)))"

text \<open>
  What the client sees: FastAPI answers 200 when the handler returns, the status of an
  \<open>HTTPException\<close> when it raises one, and 500 for any other exception.
\<close>

definition http_status :: "'a res \<Rightarrow> nat option" where
  "http_status r =
     (case r of
        Done v \<Rightarrow> Some 200
      | Raise (HTTPException c d) \<Rightarrow> Some c
      | Raise (PyError n) \<Rightarrow> Some 500
      | Blocked \<Rightarrow> None)"


section \<open>instant-voice: server/src/server.py\<close>

text \<open>
  The calls this server makes on \<open>DailyRESTHelper\<close> (a library class), and what a call
  does: it returns a string (the room's URL, the token; nothing of interest for a
  delete) or raises. The helper is a parameter that answers a call knowing the calls
  made before.
\<close>

datatype helper_call = Create_room | Get_token string | Delete_room_by_url string

datatype helper_result = Returns string | Throws exc

type_synonym daily_rest_helper = "helper_call list \<Rightarrow> helper_call \<Rightarrow> helper_result"

text \<open>The bot subprocess handle, and the calls made on it (\<open>Kill\<close> is \<open>Process.kill()\<close>).\<close>

datatype proc = Process nat

datatype proc_call = Terminate nat | Wait_for nat nat | Kill nat

text \<open>
  The module's globals: the \<open>RoomPool\<close> (\<open>iv_pool\<close>, \<open>iv_lock\<close>, the calls on its helper,
  the replenishments scheduled) and the \<open>BotManager\<close> (\<open>bot_procs\<close> and
  \<open>room_mappings\<close>, dicts in insertion order, the calls on the subprocesses, the
  monitor tasks created).
\<close>

record instant_voice =
  iv_pool :: "room list"
  iv_lock :: bool
  helper_log :: "helper_call list"
  iv_replenish_tasks :: nat
  bot_procs :: "(nat \<times> proc) list"
  room_mappings :: "(nat \<times> string) list"
  proc_log :: "proc_call list"
  monitor_tasks :: "nat list"

definition call ::
  "daily_rest_helper \<Rightarrow> helper_call \<Rightarrow> instant_voice \<Rightarrow> helper_result \<times> instant_voice" where
  "call h c s = (h (helper_log s) c, s\<lparr>helper_log := helper_log s @ [c]\<rparr>)"

text \<open>The \<open>try\<close> block of \<open>RoomPool.add_room\<close>.\<close>

definition iv_add_room_try ::
  "daily_rest_helper \<Rightarrow> instant_voice \<Rightarrow> unit res \<times> instant_voice" where
  "iv_add_room_try h s =
     (case call h Create_room s of
        (Throws e, s1) \<Rightarrow> (Raise e, s1)
      | (Returns url, s1) \<Rightarrow>
          if url = [] then (Raise (HTTPException 500 (Lit ''Failed to create room'')), s1)
          else
            (case call h (Get_token url) s1 of
               (Throws e, s2) \<Rightarrow> (Raise e, s2)
             | (Returns utok, s2) \<Rightarrow>
                 if utok = []
                 then (Raise (HTTPException 500 (Lit ''Failed to get user token'')), s2)
                 else
                   (case call h (Get_token url) s2 of
                      (Throws e, s3) \<Rightarrow> (Raise e, s3)
                    | (Returns btok, s3) \<Rightarrow>
                        if btok = []
                        then (Raise (HTTPException 500 (Lit ''Failed to get bot token'')), s3)
                        else if iv_lock s3 then (Blocked, s3)
                        else (Done (),
                              s3\<lparr>iv_pool := iv_pool s3 @
                                [\<lparr>room_url = url, user_token = utok, bot_token = btok\<rparr>]\<rparr>))))"

text \<open>\<open>RoomPool.add_room\<close>: \<open>except Exception\<close> prints the error and returns.\<close>

definition iv_add_room ::
  "daily_rest_helper \<Rightarrow> instant_voice \<Rightarrow> unit res \<times> instant_voice" where
  "iv_add_room h s =
     (case iv_add_room_try h s of
        (Raise e, s1) \<Rightarrow> (Done (), s1)
      | (Done u, s1) \<Rightarrow> (Done (), s1)
      | (Blocked, s1) \<Rightarrow> (Blocked, s1))"

text \<open>\<open>RoomPool.get_room\<close>: an empty pool raises at once; there is no on-demand creation.\<close>

definition iv_get_room :: "instant_voice \<Rightarrow> room res \<times> instant_voice" where
  "iv_get_room s =
     (if iv_lock s then (Blocked, s)
      else
        (case iv_pool s of
           [] \<Rightarrow> (Raise no_rooms, s\<lparr>iv_lock := False\<rparr>)
         | r # rest \<Rightarrow>
             (Done r, s\<lparr>iv_pool := rest, iv_lock := False,
                         iv_replenish_tasks := iv_replenish_tasks s + 1\<rparr>)))"

text \<open>\<open>RoomPool.delete_room\<close>: the helper's exception, if any, goes to the caller.\<close>

definition iv_delete_room ::
  "daily_rest_helper \<Rightarrow> string \<Rightarrow> instant_voice \<Rightarrow> unit res \<times> instant_voice" where
  "iv_delete_room h url s =
     (case call h (Delete_room_by_url url) s of
        (Returns v, s1) \<Rightarrow> (Done (), s1)
      | (Throws e, s1) \<Rightarrow> (Raise e, s1))"

text \<open>
  \<open>RoomPool.cleanup\<close>: the rooms are deleted one after the other; an exception ends the
  loop; \<open>self.pool\<close> is not assigned.
\<close>

fun iv_delete_all ::
  "daily_rest_helper \<Rightarrow> room list \<Rightarrow> instant_voice \<Rightarrow> unit res \<times> instant_voice" where
  "iv_delete_all h [] s = (Done (), s)"
| "iv_delete_all h (r # rs) s =
     (case iv_delete_room h (room_url r) s of
        (Done u, s1) \<Rightarrow> iv_delete_all h rs s1
      | (Raise e, s1) \<Rightarrow> (Raise e, s1)
      | (Blocked, s1) \<Rightarrow> (Blocked, s1))"

definition iv_cleanup ::
  "daily_rest_helper \<Rightarrow> instant_voice \<Rightarrow> unit res \<times> instant_voice" where
  "iv_cleanup h s = iv_delete_all h (iv_pool s) s"

text \<open>
  \<open>BotManager.start_bot\<close>. What \<open>create_subprocess_shell\<close> does is an input: it raises,
  or gives a process with or without a pid. Every exception of the \<open>try\<close> block is
  wrapped in a 500.
\<close>

datatype spawn = Spawned "nat option" | Spawn_error exc

definition start_bot_try ::
  "spawn \<Rightarrow> string \<Rightarrow> string \<Rightarrow> instant_voice \<Rightarrow> nat res \<times> instant_voice" where
  "start_bot_try sp url tok s =
     (case sp of
        Spawn_error e \<Rightarrow> (Raise e, s)
      | Spawned None \<Rightarrow>
          (Raise (HTTPException 500 (Lit ''Failed to get subprocess PID'')), s)
      | Spawned (Some pid) \<Rightarrow>
          (Done pid,
           s\<lparr>bot_procs := AList.update pid (Process pid) (bot_procs s),
             room_mappings := AList.update pid url (room_mappings s),
             monitor_tasks := monitor_tasks s @ [pid]\<rparr>))"

definition start_bot ::
  "spawn \<Rightarrow> string \<Rightarrow> string \<Rightarrow> instant_voice \<Rightarrow> nat res \<times> instant_voice" where
  "start_bot sp url tok s =
     (case start_bot_try sp url tok s of
        (Raise e, s1) \<Rightarrow>
          (Raise (HTTPException 500 (Prefixed ''Failed to start subprocess: '' e)), s1)
      | (Done pid, s1) \<Rightarrow> (Done pid, s1)
      | (Blocked, s1) \<Rightarrow> (Blocked, s1))"

text \<open>
  The release both \<open>_monitor_process\<close> and \<open>BotManager.cleanup\<close> perform:
  \<open>room_url = self.room_mappings.pop(pid, None)\<close>, and, if the URL is truthy,
  \<open>await room_pool.delete_room(room_url)\<close>. No await stands between the pop and the
  call.
\<close>

definition release_room ::
  "daily_rest_helper \<Rightarrow> nat \<Rightarrow> instant_voice \<Rightarrow> unit res \<times> instant_voice" where
  "release_room h pid s =
     (case map_of (room_mappings s) pid of
        None \<Rightarrow> (Done (), s)
      | Some url \<Rightarrow>
          (let s1 = s\<lparr>room_mappings := AList.delete pid (room_mappings s)\<rparr>
           in if url = [] then (Done (), s1) else iv_delete_room h url s1))"

text \<open>\<open>del self.bot_procs[pid]\<close>, a \<open>KeyError\<close> when the pid is gone.\<close>

definition forget_proc :: "nat \<Rightarrow> instant_voice \<Rightarrow> unit res \<times> instant_voice" where
  "forget_proc pid s =
     (case map_of (bot_procs s) pid of
        None \<Rightarrow> (Raise (PyError ''KeyError''), s)
      | Some p \<Rightarrow> (Done (), s\<lparr>bot_procs := AList.delete pid (bot_procs s)\<rparr>))"

text \<open>
  \<open>BotManager._monitor_process\<close>. The task reads \<open>self.bot_procs.get(pid)\<close> when it
  starts, in the state \<open>s0\<close>, and ends at once when the pid is unknown; otherwise it
  awaits \<open>proc.wait()\<close>. When the worker has exited, in the state \<open>s\<close> of that moment,
  it releases the room and does \<open>del self.bot_procs[pid]\<close>, which raises \<open>KeyError\<close> when
  the pid has been removed during the wait. An exception of the delete call ends the
  task before the \<open>del\<close>.
\<close>

definition monitor_process ::
  "daily_rest_helper \<Rightarrow> nat \<Rightarrow> instant_voice \<Rightarrow> instant_voice \<Rightarrow> unit res \<times> instant_voice"
  where
  "monitor_process h pid s0 s =
     (case map_of (bot_procs s0) pid of
        None \<Rightarrow> (Done (), s0)
      | Some p \<Rightarrow>
          (case release_room h pid s of
             (Done u, s1) \<Rightarrow> forget_proc pid s1
           | (Raise e, s1) \<Rightarrow> (Raise e, s1)
           | (Blocked, s1) \<Rightarrow> (Blocked, s1)))"

text \<open>
  \<open>BotManager.cleanup\<close>, one turn of its loop. What the worker does once asked to stop
  is an input: \<open>terminate()\<close> raises, the worker exits within the timeout,
  \<open>wait_for\<close> raises \<open>TimeoutError\<close>, or the wait raises something else. The timeout
  of 5 is the argument of \<open>wait_for\<close>. Both \<open>except\<close> clauses only print.
\<close>

datatype stop_outcome = Terminate_raises exc | Exits_in_time | Times_out | Wait_raises exc

definition cleanup_proc ::
  "daily_rest_helper \<Rightarrow> (nat \<Rightarrow> stop_outcome) \<Rightarrow> nat \<Rightarrow> instant_voice \<Rightarrow> instant_voice" where
  "cleanup_proc h w pid s =
     (let s0 = s\<lparr>proc_log := proc_log s @ [Terminate pid]\<rparr> in
      case w pid of
        Terminate_raises e \<Rightarrow> s0
      | Exits_in_time \<Rightarrow>
          snd (release_room h pid (s0\<lparr>proc_log := proc_log s0 @ [Wait_for pid 5]\<rparr>))
      | Times_out \<Rightarrow> s0\<lparr>proc_log := proc_log s0 @ [Wait_for pid 5]\<rparr>
      | Wait_raises e \<Rightarrow> s0\<lparr>proc_log := proc_log s0 @ [Wait_for pid 5]\<rparr>)"

text \<open>\<open>BotManager.cleanup\<close>: the loop over \<open>list(self.bot_procs.items())\<close>, then both clears.\<close>

definition clear_mappings :: "instant_voice \<Rightarrow> instant_voice" where
  "clear_mappings s = s\<lparr>bot_procs := [], room_mappings := []\<rparr>"

definition bot_manager_cleanup ::
  "daily_rest_helper \<Rightarrow> (nat \<Rightarrow> stop_outcome) \<Rightarrow> instant_voice \<Rightarrow> instant_voice" where
  "bot_manager_cleanup h w s =
     clear_mappings (fold (cleanup_proc h w) (map fst (bot_procs s)) s)"

text \<open>
  \<open>bot_connect\<close>: the body is \<open>{"error": str(e)}\<close> for a caught \<open>HTTPException\<close>, else
  \<open>{"room_url": .., "token": ..}\<close>.
\<close>

datatype body = Error_body detail | Room_body string string

definition caught :: "exc \<Rightarrow> instant_voice \<Rightarrow> body res \<times> instant_voice" where
  "caught e s =
     (case e of
        HTTPException c d \<Rightarrow> (Done (Error_body (Str e)), s)
      | PyError n \<Rightarrow> (Raise e, s))"

definition bot_connect :: "spawn \<Rightarrow> instant_voice \<Rightarrow> body res \<times> instant_voice" where
  "bot_connect sp s =
     (case iv_get_room s of
        (Done r, s1) \<Rightarrow>
          (case start_bot sp (room_url r) (bot_token r) s1 of
             (Done pid, s2) \<Rightarrow> (Done (Room_body (room_url r) (user_token r)), s2)
           | (Raise e, s2) \<Rightarrow> caught e s2
           | (Blocked, s2) \<Rightarrow> (Blocked, s2))
      | (Raise e, s1) \<Rightarrow> caught e s1
      | (Blocked, s1) \<Rightarrow> (Blocked, s1))"

text \<open>
  The atomic steps of the tasks that end sessions, as the event loop may interleave
  them: the monitor's release and its \<open>del\<close>, a turn of the shutdown loop, and the two
  clears that end the shutdown.
\<close>

datatype event =
  Monitor_release nat
  | Monitor_forget nat
  | Shutdown_turn nat
  | Shutdown_clear

fun step ::
  "daily_rest_helper \<Rightarrow> (nat \<Rightarrow> stop_outcome) \<Rightarrow> event \<Rightarrow> instant_voice \<Rightarrow> instant_voice" where
  "step h w (Monitor_release pid) s = snd (release_room h pid s)"
| "step h w (Monitor_forget pid) s = snd (forget_proc pid s)"
| "step h w (Shutdown_turn pid) s = cleanup_proc h w pid s"
| "step h w Shutdown_clear s = clear_mappings s"

definition run ::
  "daily_rest_helper \<Rightarrow> (nat \<Rightarrow> stop_outcome) \<Rightarrow> event list \<Rightarrow> instant_voice \<Rightarrow> instant_voice" where
  "run h w evs s = fold (step h w) evs s"

text \<open>The rooms for which a delete call has been issued, in order.\<close>

fun deleted_rooms :: "helper_call list \<Rightarrow> string list" where
  "deleted_rooms [] = []"
| "deleted_rooms (Delete_room_by_url u # cs) = u # deleted_rooms cs"
| "deleted_rooms (c # cs) = deleted_rooms cs"


section \<open>Concrete states and services\<close>

definition room_a :: room where
  "room_a = \<lparr>room_url = ''https://example.daily.co/a'', user_token = ''ua'', bot_token = ''ba''\<rparr>"

definition room_b :: room where
  "room_b = \<lparr>room_url = ''https://example.daily.co/b'', user_token = ''ub'', bot_token = ''bb''\<rparr>"

definition pool_empty :: RoomPool where
  "pool_empty = \<lparr>pool = [], lock = False, pool_size = 2, http_log = [], replenish_tasks = 0\<rparr>"

definition pool_two :: RoomPool where
  "pool_two = pool_empty\<lparr>pool := [room_a, room_b]\<rparr>"

text \<open>A Daily API that answers every request with success.\<close>

definition daily_ok :: daily_api where
  "daily_ok hist rq =
     (case rq of
        POST_rooms \<Rightarrow> Response 200 (Some ''https://example.daily.co/c'')
      | POST_meeting_tokens n \<Rightarrow> Response 200 (Some ''tok'')
      | DELETE_rooms n \<Rightarrow> Response 200 None)"

definition iv_empty :: instant_voice where
  "iv_empty = \<lparr>iv_pool = [], iv_lock = False, helper_log = [], iv_replenish_tasks = 0,
     bot_procs = [], room_mappings = [], proc_log = [], monitor_tasks = []\<rparr>"

definition iv_two :: instant_voice where
  "iv_two = iv_empty\<lparr>iv_pool := [room_a, room_b]\<rparr>"

definition bot_a :: VoiceBotManager where
  "bot_a = \<lparr>bot_room_url = ''https://example.daily.co/a'', token = Some ''ba'',
     session_id = ''s1'', task = True\<rparr>"

definition server_one :: server where
  "server_one = \<lparr>room_pool = Some pool_two, active_bots = [(''s1'', bot_a)],
     background = [''s1''], cancelled = []\<rparr>"

text \<open>A Daily API that is down, and one that creates rooms but mints no token.\<close>

definition daily_down :: daily_api where
  "daily_down hist rq = Response 500 None"

definition daily_no_token :: daily_api where
  "daily_no_token hist rq =
     (case rq of
        POST_rooms \<Rightarrow> Response 200 (Some ''https://example.daily.co/c'')
      | POST_meeting_tokens n \<Rightarrow> Response 500 None
      | DELETE_rooms n \<Rightarrow> Response 200 None)"

text \<open>A helper that creates rooms and whose \<open>get_token\<close> raises.\<close>

definition helper_no_token :: daily_rest_helper where
  "helper_no_token hist c =
     (case c of
        Create_room \<Rightarrow> Returns ''https://example.daily.co/c''
      | Get_token u \<Rightarrow> Throws (PyError ''Exception'')
      | Delete_room_by_url u \<Rightarrow> Returns [])"

definition server_exhausted :: server where
  "server_exhausted = \<lparr>room_pool = Some pool_empty, active_bots = [],
     background = [], cancelled = []\<rparr>"

text \<open>A spawn that raises, and one that gives a process with pid 7.\<close>

definition spawn_fails :: spawn where
  "spawn_fails = Spawn_error (PyError ''OSError'')"

definition spawn_ok :: spawn where
  "spawn_ok = Spawned (Some 7)"

text \<open>A helper whose every call succeeds.\<close>

definition helper_ok :: daily_rest_helper where
  "helper_ok hist c =
     (case c of
        Create_room \<Rightarrow> Returns ''https://example.daily.co/c''
      | Get_token u \<Rightarrow> Returns ''tok''
      | Delete_room_by_url u \<Rightarrow> Returns [])"

text \<open>One running bot, pid 7, on the room of \<open>room_a\<close>.\<close>

definition iv_running :: instant_voice where
  "iv_running = iv_empty\<lparr>bot_procs := [(7, Process 7)],
     room_mappings := [(7, ''https://example.daily.co/a'')], monitor_tasks := [7]\<rparr>"

section \<open>Frame lemmas of the Daily client\<close>

lemma priv_create_room_frame:
  "priv_create_room daily s = (v, s1) \<Longrightarrow> s1 = s\<lparr>http_log := http_log s @ [POST_rooms]\<rparr>"
  by (auto simp: priv_create_room_def send_def split: http_response.splits)

lemma priv_create_token_frame:
  "priv_create_token daily url s = (v, s1) \<Longrightarrow>
     pool s1 = pool s \<and> lock s1 = lock s \<and> replenish_tasks s1 = replenish_tasks s"
  by (auto simp: priv_create_token_def send_def Let_def split: http_response.splits if_splits)

lemma priv_delete_room_frame:
  "priv_delete_room daily url s = (v, s1) \<Longrightarrow>
     pool s1 = pool s \<and> lock s1 = lock s \<and> replenish_tasks s1 = replenish_tasks s"
  by (auto simp: priv_delete_room_def send_def Let_def split: http_response.splits if_splits)

lemma room_name_example: "room_name_of ''https://example.daily.co/c'' = ''c''"
  by (simp add: room_name_of_def)

section \<open>Acquiring from a buffer that holds rooms\<close>

lemma get_room_nonempty:
  assumes "\<not> lock s" "pool s = r # rest"
  shows "get_room daily s =
    (Done r, s\<lparr>pool := rest, lock := False, replenish_tasks := replenish_tasks s + 1\<rparr>)"
  using assms by (simp add: get_room_def on_demand_def)

text \<open>
  C7. A \<open>get_room\<close> that finds rooms in the buffer (and is granted the lock) returns the
  head of the buffer, the oldest entry, and leaves exactly the former tail, in its
  order. This holds for the pool of voice-ai-service and for the pool of instant-voice.
\<close>

theorem get_room_fifo:
  "(\<not> lock s \<and> pool s \<noteq> [] \<longrightarrow>
      fst (get_room daily s) = Done (hd (pool s)) \<and>
      pool (snd (get_room daily s)) = tl (pool s)) \<and>
   (\<not> iv_lock t \<and> iv_pool t \<noteq> [] \<longrightarrow>
      fst (iv_get_room t) = Done (hd (iv_pool t)) \<and>
      iv_pool (snd (iv_get_room t)) = tl (iv_pool t))"
proof (intro conjI impI)
  assume a: "\<not> lock s \<and> pool s \<noteq> []"
  then obtain r rest where p: "pool s = r # rest" by (cases "pool s") auto
  from a p show "fst (get_room daily s) = Done (hd (pool s))"
    by (simp add: get_room_nonempty)
  from a p show "pool (snd (get_room daily s)) = tl (pool s)"
    by (simp add: get_room_nonempty)
next
  assume a: "\<not> iv_lock t \<and> iv_pool t \<noteq> []"
  then obtain r rest where p: "iv_pool t = r # rest" by (cases "iv_pool t") auto
  from a p show "fst (iv_get_room t) = Done (hd (iv_pool t))"
    by (simp add: iv_get_room_def)
  from a p show "iv_pool (snd (iv_get_room t)) = tl (iv_pool t)"
    by (simp add: iv_get_room_def)
qed

theorem get_room_fifo_witness:
  "\<not> lock pool_two \<and> pool pool_two \<noteq> [] \<and>
   fst (get_room daily_ok pool_two) = Done room_a \<and>
   pool (snd (get_room daily_ok pool_two)) = [room_b] \<and>
   \<not> iv_lock iv_two \<and> iv_pool iv_two \<noteq> [] \<and>
   fst (iv_get_room iv_two) = Done room_a \<and>
   iv_pool (snd (iv_get_room iv_two)) = [room_b]"
  using get_room_fifo [of pool_two daily_ok iv_two]
  by (simp add: pool_two_def pool_empty_def iv_two_def iv_empty_def)

section \<open>The on-demand creation under the lock\<close>

text \<open>
  C3. A \<open>get_room\<close> of voice-ai-service that finds the buffer empty, and whose on-demand
  room creation and both token mints succeed, never returns: it holds the lock while it
  awaits \<open>add_room\<close>, and \<open>add_room\<close> waits for the same lock before it appends. The lock
  stays held and the buffer stays empty.
\<close>

theorem get_room_deadlock:
  assumes "\<not> lock s" and "pool s = []"
    and "priv_create_room daily (s\<lparr>lock := True\<rparr>) = (created, s1)" and "truthy created"
    and "priv_create_token daily (str_val created) s1 = (utok, s2)" and "truthy utok"
    and "priv_create_token daily (str_val created) s2 = (btok, s3)" and "truthy btok"
  shows "get_room daily s = (Blocked, s3) \<and> lock s3 \<and> pool s3 = []"
proof -
  have s1: "lock s1 \<and> pool s1 = []"
    using priv_create_room_frame [OF assms(3)] assms(2) by simp
  have s2: "lock s2 \<and> pool s2 = []"
    using priv_create_token_frame [OF assms(5)] s1 by simp
  have s3: "lock s3 \<and> pool s3 = []"
    using priv_create_token_frame [OF assms(7)] s2 by simp
  have "add_room daily (s\<lparr>lock := True\<rparr>) = (Blocked, s3)"
    using assms(3-8) s3 by (simp add: add_room_def Let_def)
  then have "get_room daily s = (Blocked, s3)"
    using assms(1,2) by (simp add: get_room_def on_demand_def)
  with s3 show ?thesis by simp
qed

theorem get_room_deadlock_witness:
  "\<not> lock pool_empty \<and> pool pool_empty = [] \<and>
   fst (get_room daily_ok pool_empty) = Blocked \<and>
   lock (snd (get_room daily_ok pool_empty)) \<and>
   http_log (snd (get_room daily_ok pool_empty)) =
     [POST_rooms, POST_meeting_tokens ''c'', POST_meeting_tokens ''c'']"
  using get_room_deadlock [of pool_empty daily_ok "Some ''https://example.daily.co/c''"
     "pool_empty\<lparr>lock := True, http_log := [POST_rooms]\<rparr>"
     "Some ''tok''"
     "pool_empty\<lparr>lock := True, http_log := [POST_rooms, POST_meeting_tokens ''c'']\<rparr>"
     "Some ''tok''"
     "pool_empty\<lparr>lock := True,
        http_log := [POST_rooms, POST_meeting_tokens ''c'', POST_meeting_tokens ''c'']\<rparr>"]
  by (simp add: pool_empty_def daily_ok_def priv_create_room_def priv_create_token_def
      send_def truthy_def str_val_def Let_def room_name_example)

section \<open>Disconnecting a session the registry does not know\<close>

text \<open>
  C9. \<open>disconnect\<close> with a session id that is not in \<open>active_bots\<close> answers success and
  changes nothing: the registry, the pool and the log of requests to the Daily API are
  as before, so no delete call is made.
\<close>

theorem disconnect_unknown:
  "sid \<notin> fst ` set (active_bots s) \<Longrightarrow>
     disconnect cancel sid s = (Done (DisconnectResponse True), s)"
proof -
  assume "sid \<notin> fst ` set (active_bots s)"
  then have "map_of (active_bots s) sid = None"
    by (simp add: map_of_eq_None_iff)
  then show ?thesis
    by (simp add: disconnect_def)
qed

theorem disconnect_unknown_witness:
  "''s2'' \<notin> fst ` set (active_bots server_one) \<and>
   disconnect (\<lambda>i. None) ''s2'' server_one = (Done (DisconnectResponse True), server_one)"
  using disconnect_unknown [of "''s2''" server_one "\<lambda>i. None"]
  by (simp add: server_one_def)

section \<open>Acquiring from an empty buffer\<close>

lemma priv_create_token_log:
  "count_list (http_log (snd (priv_create_token daily url s))) POST_rooms =
     count_list (http_log s) POST_rooms"
  by (auto simp: priv_create_token_def send_def Let_def split: http_response.splits)

lemma priv_delete_room_log:
  "count_list (http_log (snd (priv_delete_room daily url s))) POST_rooms =
     count_list (http_log s) POST_rooms"
  by (auto simp: priv_delete_room_def send_def Let_def split: http_response.splits)

lemma priv_create_room_log:
  "count_list (http_log (snd (priv_create_room daily s))) POST_rooms =
     count_list (http_log s) POST_rooms + 1"
  by (auto simp: priv_create_room_def send_def split: http_response.splits)

lemma add_room_one_creation:
  "count_list (http_log (snd (add_room daily s))) POST_rooms =
     count_list (http_log s) POST_rooms + 1"
proof -
  obtain c s1 where c: "priv_create_room daily s = (c, s1)" by (cases "priv_create_room daily s")
  obtain u s2 where u: "priv_create_token daily (str_val c) s1 = (u, s2)"
    by (cases "priv_create_token daily (str_val c) s1")
  obtain b s3 where b: "priv_create_token daily (str_val c) s2 = (b, s3)"
    by (cases "priv_create_token daily (str_val c) s2")
  have l1: "count_list (http_log s1) POST_rooms = count_list (http_log s) POST_rooms + 1"
    using priv_create_room_log [of daily s] c by simp
  have l2: "count_list (http_log s2) POST_rooms = count_list (http_log s1) POST_rooms"
    using priv_create_token_log [of daily "str_val c" s1] u by simp
  have l3: "count_list (http_log s3) POST_rooms = count_list (http_log s2) POST_rooms"
    using priv_create_token_log [of daily "str_val c" s2] b by simp
  show ?thesis
    using c u b l1 l2 l3 priv_delete_room_log [of daily "str_val c" s3]
    by (simp add: add_room_def Let_def delete_room_def)
qed

lemma add_room_never_raises: "fst (add_room daily s) \<noteq> Raise e"
  by (simp add: add_room_def Let_def split: prod.splits)

lemma add_room_locked:
  assumes "lock s" and "add_room daily s = (Done u, s1)"
  shows "pool s1 = pool s \<and> lock s1"
proof -
  obtain c t1 where c: "priv_create_room daily s = (c, t1)" by (cases "priv_create_room daily s")
  obtain v t2 where v: "priv_create_token daily (str_val c) t1 = (v, t2)"
    by (cases "priv_create_token daily (str_val c) t1")
  obtain b t3 where b: "priv_create_token daily (str_val c) t2 = (b, t3)"
    by (cases "priv_create_token daily (str_val c) t2")
  obtain d t4 where d: "priv_delete_room daily (str_val c) t3 = (d, t4)"
    by (cases "priv_delete_room daily (str_val c) t3")
  have f1: "pool t1 = pool s \<and> lock t1" using priv_create_room_frame [OF c] assms(1) by simp
  have f2: "pool t2 = pool s \<and> lock t2" using priv_create_token_frame [OF v] f1 by simp
  have f3: "pool t3 = pool s \<and> lock t3" using priv_create_token_frame [OF b] f2 by simp
  have f4: "pool t4 = pool s \<and> lock t4" using priv_delete_room_frame [OF d] f3 by simp
  show ?thesis
    using assms(2) c v b d f1 f2 f3 f4
    by (auto simp: add_room_def Let_def delete_room_def split: if_splits)
qed

lemma get_room_empty_cases:
  assumes "\<not> lock s" and "pool s = []"
  shows "(\<exists>s1. add_room daily (s\<lparr>lock := True\<rparr>) = (Done (), s1) \<and> pool s1 = [] \<and>
            get_room daily s = (Raise no_rooms, s1\<lparr>lock := False\<rparr>)) \<or>
         (\<exists>s1. add_room daily (s\<lparr>lock := True\<rparr>) = (Blocked, s1) \<and>
            get_room daily s = (Blocked, s1))"
proof (cases "add_room daily (s\<lparr>lock := True\<rparr>)")
  case (Pair r s1)
  show ?thesis
  proof (cases r)
    case (Done u)
    with Pair have "pool s1 = []"
      using add_room_locked [of "s\<lparr>lock := True\<rparr>" daily u s1] assms(2) by simp
    with Pair Done assms show ?thesis
      by (simp add: get_room_def on_demand_def)
  next
    case (Raise e)
    with Pair show ?thesis using add_room_never_raises [of daily "s\<lparr>lock := True\<rparr>" e] by simp
  next
    case Blocked
    with Pair assms show ?thesis by (simp add: get_room_def on_demand_def)
  qed
qed

text \<open>
  C2, as the code has it. In voice-ai-service a \<open>get_room\<close> that finds the buffer empty
  makes exactly one synchronous \<open>add_room\<close> attempt (one room-creation request leaves);
  whenever that attempt returns, the buffer is still empty and the call fails with the
  503 "No available rooms"; it never hands out an entry. In instant-voice a \<open>get_room\<close>
  that finds the buffer empty makes no attempt: it fails at once with the same error
  and calls nothing.
\<close>

theorem get_room_empty_buffer:
  "(\<not> lock s \<and> pool s = [] \<longrightarrow>
      count_list (http_log (snd (get_room daily s))) POST_rooms =
        count_list (http_log s) POST_rooms + 1 \<and>
      (\<forall>s1. add_room daily (s\<lparr>lock := True\<rparr>) = (Done (), s1) \<longrightarrow>
         pool s1 = [] \<and> get_room daily s = (Raise no_rooms, s1\<lparr>lock := False\<rparr>)) \<and>
      (\<forall>r. fst (get_room daily s) \<noteq> Done r)) \<and>
   (\<not> iv_lock t \<and> iv_pool t = [] \<longrightarrow>
      iv_get_room t = (Raise no_rooms, t\<lparr>iv_lock := False\<rparr>))"
proof (intro conjI impI allI)
  assume a: "\<not> lock s \<and> pool s = []"
  have c: "count_list (http_log (snd (add_room daily (s\<lparr>lock := True\<rparr>)))) POST_rooms =
      count_list (http_log s) POST_rooms + 1"
    using add_room_one_creation [of daily "s\<lparr>lock := True\<rparr>"] by simp
  from a get_room_empty_cases [of s daily] c
  show "count_list (http_log (snd (get_room daily s))) POST_rooms =
        count_list (http_log s) POST_rooms + 1"
    by auto
next
  fix s1
  assume a: "\<not> lock s \<and> pool s = []"
    and d: "add_room daily (s\<lparr>lock := True\<rparr>) = (Done (), s1)"
  from a d get_room_empty_cases [of s daily]
  show "pool s1 = []" by auto
  from a d get_room_empty_cases [of s daily]
  show "get_room daily s = (Raise no_rooms, s1\<lparr>lock := False\<rparr>)" by auto
next
  fix r
  assume a: "\<not> lock s \<and> pool s = []"
  from a get_room_empty_cases [of s daily]
  show "fst (get_room daily s) \<noteq> Done r" by auto
next
  assume "\<not> iv_lock t \<and> iv_pool t = []"
  then show "iv_get_room t = (Raise no_rooms, t\<lparr>iv_lock := False\<rparr>)"
    by (simp add: iv_get_room_def)
qed

theorem get_room_empty_buffer_witness:
  "\<not> lock pool_empty \<and> pool pool_empty = [] \<and>
   add_room daily_down (pool_empty\<lparr>lock := True\<rparr>) =
     (Done (), pool_empty\<lparr>lock := True, http_log := [POST_rooms]\<rparr>) \<and>
   get_room daily_down pool_empty = (Raise no_rooms, pool_empty\<lparr>http_log := [POST_rooms]\<rparr>) \<and>
   count_list (http_log (snd (get_room daily_down pool_empty))) POST_rooms = 1 \<and>
   \<not> iv_lock iv_empty \<and> iv_pool iv_empty = [] \<and>
   iv_get_room iv_empty = (Raise no_rooms, iv_empty)"
proof -
  have a: "add_room daily_down (pool_empty\<lparr>lock := True\<rparr>) =
     (Done (), pool_empty\<lparr>lock := True, http_log := [POST_rooms]\<rparr>)"
    by (simp add: add_room_def priv_create_room_def send_def daily_down_def truthy_def
        pool_empty_def)
  show ?thesis
    using get_room_empty_buffer [of pool_empty daily_down iv_empty] a
    by (simp add: pool_empty_def iv_empty_def)
qed

text \<open>
  C2 as stated fails on instant-voice: on the empty buffer no \<open>add_room\<close> is attempted,
  the helper is not called at all.
\<close>

theorem iv_get_room_no_fallback:
  "iv_pool iv_empty = [] \<and> \<not> iv_lock iv_empty \<and>
   fst (iv_get_room iv_empty) = Raise no_rooms \<and>
   helper_log (snd (iv_get_room iv_empty)) = [] \<and>
   count_list (helper_log (snd (iv_get_room iv_empty))) Create_room \<noteq> 1"
  by (simp add: iv_get_room_def iv_empty_def)

section \<open>A room whose tokens cannot be minted\<close>

lemma deleted_rooms_append:
  "deleted_rooms (xs @ ys) = deleted_rooms xs @ deleted_rooms ys"
proof (induction xs)
  case Nil
  show ?case by simp
next
  case (Cons c cs)
  then show ?case by (cases c) simp_all
qed

lemma iv_add_room_try_frame:
  "deleted_rooms (helper_log (snd (iv_add_room_try h t))) = deleted_rooms (helper_log t) \<and>
   (fst (iv_add_room_try h t) \<noteq> Done () \<longrightarrow> iv_pool (snd (iv_add_room_try h t)) = iv_pool t)"
  by (simp add: iv_add_room_try_def call_def deleted_rooms_append
      split: helper_result.splits)

lemma priv_delete_room_request:
  "room_name_of url \<noteq> [] \<Longrightarrow>
     http_log (delete_room daily url s) = http_log s @ [DELETE_rooms (room_name_of url)]"
  by (simp add: delete_room_def priv_delete_room_def send_def Let_def
      split: http_response.splits)

lemma delete_room_frame:
  "pool (delete_room daily url s) = pool s \<and> lock (delete_room daily url s) = lock s"
  using priv_delete_room_frame [of daily url s]
  by (cases "priv_delete_room daily url s") (simp add: delete_room_def)

text \<open>
  C4, as the code has it. In voice-ai-service, when the room is created and one of the
  two tokens is not minted, \<open>add_room\<close> calls \<open>_delete_room\<close> on the fresh room before it
  returns (the DELETE request leaves whenever the URL has a last path segment) and the
  buffer is unchanged. In instant-voice the buffer is unchanged as well, and
  \<open>add_room\<close> returns, but it issues no delete call.
\<close>

theorem add_room_failed_mint:
  "(priv_create_room daily s = (created, s1) \<and> truthy created \<and>
    priv_create_token daily (str_val created) s1 = (utok, s2) \<and>
    priv_create_token daily (str_val created) s2 = (btok, s3) \<and>
    (\<not> truthy utok \<or> \<not> truthy btok) \<longrightarrow>
      add_room daily s = (Done (), delete_room daily (str_val created) s3) \<and>
      pool (snd (add_room daily s)) = pool s \<and>
      (room_name_of (str_val created) \<noteq> [] \<longrightarrow>
         http_log (snd (add_room daily s)) =
           http_log s3 @ [DELETE_rooms (room_name_of (str_val created))])) \<and>
   (call h Create_room t = (Returns url, t1) \<and> url \<noteq> [] \<and>
    fst (iv_add_room_try h t) = Raise e \<longrightarrow>
      fst (iv_add_room h t) = Done () \<and>
      iv_pool (snd (iv_add_room h t)) = iv_pool t \<and>
      deleted_rooms (helper_log (snd (iv_add_room h t))) = deleted_rooms (helper_log t))"
proof (intro conjI impI)
  assume a: "priv_create_room daily s = (created, s1) \<and> truthy created \<and>
    priv_create_token daily (str_val created) s1 = (utok, s2) \<and>
    priv_create_token daily (str_val created) s2 = (btok, s3) \<and>
    (\<not> truthy utok \<or> \<not> truthy btok)"
  then show r: "add_room daily s = (Done (), delete_room daily (str_val created) s3)"
    by (auto simp: add_room_def Let_def)
  have "pool s1 = pool s" using a priv_create_room_frame [of daily s created s1] by simp
  moreover have "pool s2 = pool s1"
    using a priv_create_token_frame [of daily "str_val created" s1 utok s2] by simp
  moreover have "pool s3 = pool s2"
    using a priv_create_token_frame [of daily "str_val created" s2 btok s3] by simp
  ultimately show "pool (snd (add_room daily s)) = pool s"
    using r delete_room_frame [of daily "str_val created" s3] by simp
  assume "room_name_of (str_val created) \<noteq> []"
  then show "http_log (snd (add_room daily s)) =
      http_log s3 @ [DELETE_rooms (room_name_of (str_val created))]"
    using r by (simp add: priv_delete_room_request)
next
  assume a: "call h Create_room t = (Returns url, t1) \<and> url \<noteq> [] \<and>
    fst (iv_add_room_try h t) = Raise e"
  obtain r t' where p: "iv_add_room_try h t = (r, t')" by (cases "iv_add_room_try h t")
  with a have r: "r = Raise e" by simp
  from p r show "fst (iv_add_room h t) = Done ()" by (simp add: iv_add_room_def)
  from p r iv_add_room_try_frame [of h t]
  show "iv_pool (snd (iv_add_room h t)) = iv_pool t" by (simp add: iv_add_room_def)
  from p r iv_add_room_try_frame [of h t]
  show "deleted_rooms (helper_log (snd (iv_add_room h t))) = deleted_rooms (helper_log t)"
    by (simp add: iv_add_room_def)
qed

theorem add_room_failed_mint_witness:
  "priv_create_room daily_no_token pool_two =
     (Some ''https://example.daily.co/c'', pool_two\<lparr>http_log := [POST_rooms]\<rparr>) \<and>
   priv_create_token daily_no_token ''https://example.daily.co/c''
       (pool_two\<lparr>http_log := [POST_rooms]\<rparr>) =
     (None, pool_two\<lparr>http_log := [POST_rooms, POST_meeting_tokens ''c'']\<rparr>) \<and>
   fst (add_room daily_no_token pool_two) = Done () \<and>
   pool (snd (add_room daily_no_token pool_two)) = [room_a, room_b] \<and>
   http_log (snd (add_room daily_no_token pool_two)) =
     [POST_rooms, POST_meeting_tokens ''c'', POST_meeting_tokens ''c'', DELETE_rooms ''c''] \<and>
   call helper_no_token Create_room iv_two =
     (Returns ''https://example.daily.co/c'', iv_two\<lparr>helper_log := [Create_room]\<rparr>) \<and>
   fst (iv_add_room_try helper_no_token iv_two) = Raise (PyError ''Exception'') \<and>
   fst (iv_add_room helper_no_token iv_two) = Done () \<and>
   iv_pool (snd (iv_add_room helper_no_token iv_two)) = [room_a, room_b] \<and>
   deleted_rooms (helper_log (snd (iv_add_room helper_no_token iv_two))) = []"
  using add_room_failed_mint [of daily_no_token pool_two "Some ''https://example.daily.co/c''"
      "pool_two\<lparr>http_log := [POST_rooms]\<rparr>" None
      "pool_two\<lparr>http_log := [POST_rooms, POST_meeting_tokens ''c'']\<rparr>" None
      "pool_two\<lparr>http_log := [POST_rooms, POST_meeting_tokens ''c'', POST_meeting_tokens ''c'']\<rparr>"
      helper_no_token iv_two "''https://example.daily.co/c''"
      "iv_two\<lparr>helper_log := [Create_room]\<rparr>" "PyError ''Exception''"]
  by (simp add: pool_two_def pool_empty_def daily_no_token_def priv_create_room_def
      priv_create_token_def send_def truthy_def str_val_def Let_def room_name_example
      iv_two_def iv_empty_def helper_no_token_def call_def iv_add_room_try_def
      delete_room_def priv_delete_room_def)

text \<open>
  C4 as stated fails on instant-voice: the room is created, \<open>get_token\<close> raises, and
  \<open>add_room\<close> returns without a delete call for the room.
\<close>

theorem iv_add_room_orphan:
  "fst (call helper_no_token Create_room iv_empty) = Returns ''https://example.daily.co/c'' \<and>
   fst (iv_add_room helper_no_token iv_empty) = Done () \<and>
   helper_log (snd (iv_add_room helper_no_token iv_empty)) =
     [Create_room, Get_token ''https://example.daily.co/c''] \<and>
   Delete_room_by_url ''https://example.daily.co/c'' \<notin>
     set (helper_log (snd (iv_add_room helper_no_token iv_empty)))"
  by (simp add: iv_add_room_def iv_add_room_try_def call_def helper_no_token_def iv_empty_def)

section \<open>A worker that fails to start\<close>

lemma start_bot_raises:
  "start_bot sp url tok t = (Raise e, t1) \<Longrightarrow> t1 = t \<and> (\<exists>c d. e = HTTPException c d)"
  by (auto simp: start_bot_def start_bot_try_def split: spawn.splits option.splits)

lemma iv_get_room_done:
  "iv_get_room t = (Done r, t1) \<Longrightarrow>
     helper_log t1 = helper_log t \<and> iv_pool t1 = tl (iv_pool t)"
  by (auto simp: iv_get_room_def split: if_splits list.splits)

lemma get_room_done:
  assumes "get_room daily rp = (Done r, rp1)"
  shows "pool rp = r # pool rp1 \<and> http_log rp1 = http_log rp"
proof -
  have l: "\<not> lock rp" using assms by (auto simp: get_room_def)
  have "pool rp \<noteq> []"
  proof
    assume "pool rp = []"
    with l get_room_empty_cases [of rp daily] assms show False by auto
  qed
  then obtain x xs where p: "pool rp = x # xs" by (cases "pool rp") auto
  with l assms get_room_nonempty [of rp x xs daily] show ?thesis by auto
qed

lemma connect_served:
  assumes "room_pool s = Some rp" and "get_room daily rp = (Done r, rp1)"
  shows "connect daily env sid s =
    (Done (ConnectResponse sid (room_url r) (user_token r)),
     s\<lparr>room_pool := Some rp1,
       active_bots := AList.update sid
         \<lparr>bot_room_url = room_url r, token = Some (bot_token r), session_id = sid,
            task = False\<rparr> (active_bots s),
       background := background s @ [sid]\<rparr>)"
  using assms by (simp add: connect_def connect_try_def start_session_def Let_def)

text \<open>
  C5, as the code has it. When \<open>get_room\<close> has handed out a room and starting the worker
  fails, no delete call is made for the room, which is no longer in the buffer either.
  instant-voice's \<open>bot_connect\<close> returns the error as \<open>{"error": str(e)}\<close> and its helper
  has been called for nothing. voice-ai-service's \<open>connect\<close> has by then answered with
  success: it registers the session and hands \<open>run_bot\<close> to the background tasks
  without sending a request; when the worker's initialisation raises there, \<open>run_bot\<close>
  only removes the session from \<open>active_bots\<close>, and the pool with its request log is as
  \<open>get_room\<close> left it.
\<close>

theorem failed_start_keeps_no_room:
  "(iv_get_room t = (Done r, t1) \<and>
    start_bot sp (room_url r) (bot_token r) t1 = (Raise e, t2) \<longrightarrow>
      fst (bot_connect sp t) = Done (Error_body (Str e)) \<and>
      helper_log (snd (bot_connect sp t)) = helper_log t \<and>
      iv_pool (snd (bot_connect sp t)) = tl (iv_pool t)) \<and>
   (room_pool s = Some rp \<and> get_room daily rp = (Done r', rp1) \<longrightarrow>
      fst (connect daily env sid s) =
        Done (ConnectResponse sid (room_url r') (user_token r')) \<and>
      map_of (active_bots (snd (connect daily env sid s))) sid =
        Some \<lparr>bot_room_url = room_url r', token = Some (bot_token r'), session_id = sid,
               task = False\<rparr> \<and>
      sid \<in> set (background (snd (connect daily env sid s))) \<and>
      pool rp = r' # pool rp1 \<and>
      http_log rp1 = http_log rp \<and>
      room_pool (run_bot (Some e')
          \<lparr>bot_room_url = room_url r', token = Some (bot_token r'), session_id = sid,
             task = False\<rparr> (snd (connect daily env sid s))) = Some rp1 \<and>
      sid \<notin> fst ` set (active_bots (run_bot (Some e')
          \<lparr>bot_room_url = room_url r', token = Some (bot_token r'), session_id = sid,
             task = False\<rparr> (snd (connect daily env sid s)))))"
proof (intro conjI impI)
  assume a: "iv_get_room t = (Done r, t1) \<and>
    start_bot sp (room_url r) (bot_token r) t1 = (Raise e, t2)"
  then obtain c d where e: "e = HTTPException c d" and t2: "t2 = t1"
    using start_bot_raises [of sp "room_url r" "bot_token r" t1 e t2] by auto
  from a e have b: "bot_connect sp t = (Done (Error_body (Str e)), t2)"
    by (simp add: bot_connect_def caught_def)
  from b show "fst (bot_connect sp t) = Done (Error_body (Str e))" by simp
  from a b t2 iv_get_room_done [of t r t1]
  show "helper_log (snd (bot_connect sp t)) = helper_log t" by simp
  from a b t2 iv_get_room_done [of t r t1]
  show "iv_pool (snd (bot_connect sp t)) = tl (iv_pool t)" by simp
next
  let ?b = "\<lparr>bot_room_url = room_url r', token = Some (bot_token r'), session_id = sid,
    task = False\<rparr>"
  assume a: "room_pool s = Some rp \<and> get_room daily rp = (Done r', rp1)"
  then have c: "connect daily env sid s =
    (Done (ConnectResponse sid (room_url r') (user_token r')),
     s\<lparr>room_pool := Some rp1, active_bots := AList.update sid ?b (active_bots s),
       background := background s @ [sid]\<rparr>)"
    using connect_served [of s rp daily r' rp1 env sid] by simp
  from c show "fst (connect daily env sid s) =
      Done (ConnectResponse sid (room_url r') (user_token r'))" by simp
  from c show "map_of (active_bots (snd (connect daily env sid s))) sid = Some ?b"
    by (simp add: update_conv')
  from c show "sid \<in> set (background (snd (connect daily env sid s)))" by simp
  from a get_room_done [of daily rp r' rp1]
  show "pool rp = r' # pool rp1" and "http_log rp1 = http_log rp" by simp_all
  from c show "room_pool (run_bot (Some e') ?b (snd (connect daily env sid s))) = Some rp1"
    by (simp add: run_bot_def)
  from c show "sid \<notin> fst ` set (active_bots (run_bot (Some e') ?b
      (snd (connect daily env sid s))))"
    by (simp add: run_bot_def delete_notin_dom)
qed

theorem failed_start_keeps_no_room_witness:
  "iv_get_room iv_two =
     (Done room_a, iv_two\<lparr>iv_pool := [room_b], iv_replenish_tasks := 1\<rparr>) \<and>
   start_bot spawn_fails (room_url room_a) (bot_token room_a)
       (iv_two\<lparr>iv_pool := [room_b], iv_replenish_tasks := 1\<rparr>) =
     (Raise (HTTPException 500 (Prefixed ''Failed to start subprocess: '' (PyError ''OSError''))),
      iv_two\<lparr>iv_pool := [room_b], iv_replenish_tasks := 1\<rparr>) \<and>
   fst (bot_connect spawn_fails iv_two) =
     Done (Error_body (Str (HTTPException 500
       (Prefixed ''Failed to start subprocess: '' (PyError ''OSError''))))) \<and>
   helper_log (snd (bot_connect spawn_fails iv_two)) = [] \<and>
   iv_pool (snd (bot_connect spawn_fails iv_two)) = [room_b] \<and>
   room_pool server_one = Some pool_two \<and>
   get_room daily_ok pool_two =
     (Done room_a, pool_two\<lparr>pool := [room_b], replenish_tasks := 1\<rparr>) \<and>
   fst (connect daily_ok None ''s2'' server_one) =
     Done (ConnectResponse ''s2'' ''https://example.daily.co/a'' ''ua'') \<and>
   room_pool (run_bot (Some (PyError ''RuntimeError''))
       \<lparr>bot_room_url = ''https://example.daily.co/a'', token = Some ''ba'',
          session_id = ''s2'', task = False\<rparr>
       (snd (connect daily_ok None ''s2'' server_one))) =
     Some (pool_two\<lparr>pool := [room_b], replenish_tasks := 1\<rparr>) \<and>
   http_log (pool_two\<lparr>pool := [room_b], replenish_tasks := 1\<rparr>) = [] \<and>
   ''s2'' \<notin> fst ` set (active_bots (run_bot (Some (PyError ''RuntimeError''))
       \<lparr>bot_room_url = ''https://example.daily.co/a'', token = Some ''ba'',
          session_id = ''s2'', task = False\<rparr>
       (snd (connect daily_ok None ''s2'' server_one))))"
proof -
  have i: "iv_get_room iv_two =
      (Done room_a, iv_two\<lparr>iv_pool := [room_b], iv_replenish_tasks := 1\<rparr>)"
    by (simp add: iv_get_room_def iv_two_def iv_empty_def)
  have b: "start_bot spawn_fails (room_url room_a) (bot_token room_a)
       (iv_two\<lparr>iv_pool := [room_b], iv_replenish_tasks := 1\<rparr>) =
     (Raise (HTTPException 500 (Prefixed ''Failed to start subprocess: '' (PyError ''OSError''))),
      iv_two\<lparr>iv_pool := [room_b], iv_replenish_tasks := 1\<rparr>)"
    by (simp add: start_bot_def start_bot_try_def spawn_fails_def)
  have q: "room_pool server_one = Some pool_two"
    by (simp add: server_one_def)
  have g: "get_room daily_ok pool_two =
      (Done room_a, pool_two\<lparr>pool := [room_b], replenish_tasks := 1\<rparr>)"
    by (simp add: get_room_nonempty pool_two_def pool_empty_def)
  note T = failed_start_keeps_no_room [of iv_two room_a
      "iv_two\<lparr>iv_pool := [room_b], iv_replenish_tasks := 1\<rparr>" spawn_fails
      "HTTPException 500 (Prefixed ''Failed to start subprocess: '' (PyError ''OSError''))"
      "iv_two\<lparr>iv_pool := [room_b], iv_replenish_tasks := 1\<rparr>"
      server_one pool_two daily_ok room_a
      "pool_two\<lparr>pool := [room_b], replenish_tasks := 1\<rparr>" None "''s2''"
      "PyError ''RuntimeError''"]
  have c1: "fst (bot_connect spawn_fails iv_two) =
     Done (Error_body (Str (HTTPException 500
       (Prefixed ''Failed to start subprocess: '' (PyError ''OSError''))))) \<and>
     helper_log (snd (bot_connect spawn_fails iv_two)) = helper_log iv_two \<and>
     iv_pool (snd (bot_connect spawn_fails iv_two)) = tl (iv_pool iv_two)"
    using T i b by blast
  have c2: "fst (connect daily_ok None ''s2'' server_one) =
        Done (ConnectResponse ''s2'' (room_url room_a) (user_token room_a)) \<and>
      room_pool (run_bot (Some (PyError ''RuntimeError''))
          \<lparr>bot_room_url = room_url room_a, token = Some (bot_token room_a),
             session_id = ''s2'', task = False\<rparr>
          (snd (connect daily_ok None ''s2'' server_one))) =
        Some (pool_two\<lparr>pool := [room_b], replenish_tasks := 1\<rparr>) \<and>
      ''s2'' \<notin> fst ` set (active_bots (run_bot (Some (PyError ''RuntimeError''))
          \<lparr>bot_room_url = room_url room_a, token = Some (bot_token room_a),
             session_id = ''s2'', task = False\<rparr>
          (snd (connect daily_ok None ''s2'' server_one))))"
    using T q g by blast
  have h: "http_log (pool_two\<lparr>pool := [room_b], replenish_tasks := 1\<rparr>) = []"
    by (simp add: pool_two_def pool_empty_def)
  from i b q g h c1 c2 show ?thesis
    by (simp add: iv_two_def iv_empty_def room_a_def)
qed

text \<open>
  C5 as stated fails: \<open>bot_connect\<close> takes \<open>room_a\<close> from the buffer, the spawn raises,
  and the error is returned with no call on the helper: the room is not deleted, not in
  the buffer and not in \<open>room_mappings\<close>.
\<close>

theorem bot_connect_leaks_room:
  "fst (iv_get_room iv_two) = Done room_a \<and>
   fst (bot_connect spawn_fails iv_two) =
     Done (Error_body (Str (HTTPException 500
       (Prefixed ''Failed to start subprocess: '' (PyError ''OSError''))))) \<and>
   helper_log (snd (bot_connect spawn_fails iv_two)) = [] \<and>
   iv_pool (snd (bot_connect spawn_fails iv_two)) = [room_b] \<and>
   room_mappings (snd (bot_connect spawn_fails iv_two)) = []"
  by (simp add: bot_connect_def iv_get_room_def start_bot_def start_bot_try_def caught_def
      spawn_fails_def iv_two_def iv_empty_def)

section \<open>What connect answers\<close>

text \<open>
  C6, as the code has it. When the buffer is empty and the on-demand creation adds
  nothing, \<open>get_room\<close> of voice-ai-service raises the \<open>HTTPException\<close> 503
  "No available rooms", \<open>connect\<close> answers by raising an \<open>HTTPException\<close> and registers
  no session;
  instant-voice's \<open>bot_connect\<close> catches the 503 of its pool and returns the body
  \<open>{"error": str(e)}\<close> as an ordinary response. On success \<open>connect\<close> carries the session
  id, the room URL and the user token, and \<open>bot_connect\<close> the room URL and the user
  token.
\<close>

theorem connect_responses:
  "(room_pool s = Some rp \<and> \<not> lock rp \<and> pool rp = [] \<and>
    fst (add_room daily (rp\<lparr>lock := True\<rparr>)) = Done () \<longrightarrow>
      fst (get_room daily rp) = Raise (HTTPException 503 (Lit ''No available rooms'')) \<and>
      (\<exists>c d. fst (connect daily env sid s) = Raise (HTTPException c d)) \<and>
      (\<forall>r. fst (connect daily env sid s) \<noteq> Done r) \<and>
      active_bots (snd (connect daily env sid s)) = active_bots s) \<and>
   (room_pool s = Some rp \<and> get_room daily rp = (Done r, rp1) \<longrightarrow>
      fst (connect daily env sid s) =
        Done (ConnectResponse sid (room_url r) (user_token r))) \<and>
   (\<not> iv_lock t \<and> iv_pool t = [] \<longrightarrow>
      fst (bot_connect sp t) =
        Done (Error_body (Str (HTTPException 503 (Lit ''No available rooms''))))) \<and>
   (iv_get_room t = (Done r', t1) \<and>
    start_bot sp (room_url r') (bot_token r') t1 = (Done pid, t2) \<longrightarrow>
      fst (bot_connect sp t) = Done (Room_body (room_url r') (user_token r')))"
proof (intro conjI impI allI)
  assume a: "room_pool s = Some rp \<and> \<not> lock rp \<and> pool rp = [] \<and>
    fst (add_room daily (rp\<lparr>lock := True\<rparr>)) = Done ()"
  then obtain rp1 where g: "get_room daily rp = (Raise no_rooms, rp1)"
    using get_room_empty_cases [of rp daily] by auto
  then show "fst (get_room daily rp) = Raise (HTTPException 503 (Lit ''No available rooms''))"
    by (simp add: no_rooms_def)
  from a g have c: "connect daily env sid s =
      (Raise (HTTPException 500 (Str no_rooms)), s\<lparr>room_pool := Some rp1\<rparr>)"
    by (simp add: connect_def connect_try_def)
  from c show "\<exists>c d. fst (connect daily env sid s) = Raise (HTTPException c d)" by simp
  from c show "active_bots (snd (connect daily env sid s)) = active_bots s" by simp
  fix r
  from c show "fst (connect daily env sid s) \<noteq> Done r" by simp
next
  assume "room_pool s = Some rp \<and> get_room daily rp = (Done r, rp1)"
  then show "fst (connect daily env sid s) =
      Done (ConnectResponse sid (room_url r) (user_token r))"
    by (simp add: connect_def connect_try_def start_session_def Let_def)
next
  assume "\<not> iv_lock t \<and> iv_pool t = []"
  then show "fst (bot_connect sp t) =
      Done (Error_body (Str (HTTPException 503 (Lit ''No available rooms''))))"
    by (simp add: bot_connect_def iv_get_room_def caught_def no_rooms_def)
next
  assume "iv_get_room t = (Done r', t1) \<and>
    start_bot sp (room_url r') (bot_token r') t1 = (Done pid, t2)"
  then show "fst (bot_connect sp t) = Done (Room_body (room_url r') (user_token r'))"
    by (simp add: bot_connect_def)
qed

theorem connect_responses_witness:
  "room_pool server_exhausted = Some pool_empty \<and> \<not> lock pool_empty \<and> pool pool_empty = [] \<and>
   fst (add_room daily_down (pool_empty\<lparr>lock := True\<rparr>)) = Done () \<and>
   fst (get_room daily_down pool_empty) = Raise (HTTPException 503 (Lit ''No available rooms'')) \<and>
   (\<exists>c d. fst (connect daily_down None ''s2'' server_exhausted) = Raise (HTTPException c d)) \<and>
   active_bots (snd (connect daily_down None ''s2'' server_exhausted)) = [] \<and>
   room_pool server_one = Some pool_two \<and>
   fst (get_room daily_ok pool_two) = Done room_a \<and>
   fst (connect daily_ok None ''s2'' server_one) =
     Done (ConnectResponse ''s2'' ''https://example.daily.co/a'' ''ua'') \<and>
   \<not> iv_lock iv_empty \<and> iv_pool iv_empty = [] \<and>
   fst (bot_connect spawn_ok iv_empty) =
     Done (Error_body (Str (HTTPException 503 (Lit ''No available rooms'')))) \<and>
   fst (iv_get_room iv_two) = Done room_a \<and>
   fst (start_bot spawn_ok (room_url room_a) (bot_token room_a) (snd (iv_get_room iv_two))) =
     Done 7 \<and>
   fst (bot_connect spawn_ok iv_two) =
     Done (Room_body ''https://example.daily.co/a'' ''ua'')"
proof -
  have p: "room_pool server_exhausted = Some pool_empty \<and> \<not> lock pool_empty \<and>
      pool pool_empty = []"
    by (simp add: server_exhausted_def pool_empty_def)
  have a: "fst (add_room daily_down (pool_empty\<lparr>lock := True\<rparr>)) = Done ()"
    by (simp add: add_room_def priv_create_room_def send_def daily_down_def truthy_def)
  have q: "room_pool server_one = Some pool_two"
    by (simp add: server_one_def)
  have g: "get_room daily_ok pool_two =
      (Done room_a, pool_two\<lparr>pool := [room_b], lock := False, replenish_tasks := 1\<rparr>)"
    by (simp add: get_room_nonempty pool_two_def pool_empty_def)
  have e: "\<not> iv_lock iv_empty \<and> iv_pool iv_empty = []"
    by (simp add: iv_empty_def)
  have i: "iv_get_room iv_two =
      (Done room_a, iv_two\<lparr>iv_pool := [room_b], iv_lock := False, iv_replenish_tasks := 1\<rparr>)"
    by (simp add: iv_get_room_def iv_two_def iv_empty_def)
  obtain t2 where b: "start_bot spawn_ok (room_url room_a) (bot_token room_a)
      (iv_two\<lparr>iv_pool := [room_b], iv_lock := False, iv_replenish_tasks := 1\<rparr>) = (Done 7, t2)"
    by (simp add: start_bot_def start_bot_try_def spawn_ok_def)
  note exhausted = connect_responses [of server_exhausted pool_empty daily_down None "''s2''"
      room_a pool_two iv_empty spawn_ok room_a iv_two 7 iv_two]
  note served = connect_responses [of server_one pool_two daily_ok None "''s2''" room_a
      "pool_two\<lparr>pool := [room_b], lock := False, replenish_tasks := 1\<rparr>"
      iv_two spawn_ok room_a
      "iv_two\<lparr>iv_pool := [room_b], iv_lock := False, iv_replenish_tasks := 1\<rparr>" 7 t2]
  have c1: "fst (get_room daily_down pool_empty) =
      Raise (HTTPException 503 (Lit ''No available rooms''))"
    using exhausted p a by blast
  have c2: "active_bots (snd (connect daily_down None ''s2'' server_exhausted)) = []"
    using exhausted p a by (simp add: server_exhausted_def)
  have c6: "\<exists>c d. fst (connect daily_down None ''s2'' server_exhausted) = Raise (HTTPException c d)"
    using exhausted p a by blast
  have c3: "fst (connect daily_ok None ''s2'' server_one) =
      Done (ConnectResponse ''s2'' ''https://example.daily.co/a'' ''ua'')"
    using served q g by (simp add: room_a_def)
  have c4: "fst (bot_connect spawn_ok iv_empty) =
      Done (Error_body (Str (HTTPException 503 (Lit ''No available rooms''))))"
    using exhausted e by blast
  have c5: "fst (bot_connect spawn_ok iv_two) =
      Done (Room_body ''https://example.daily.co/a'' ''ua'')"
    using served i b by (simp add: room_a_def)
  from p a q g e i b c1 c2 c3 c4 c5 c6 show ?thesis by simp
qed

text \<open>
  C6 as stated fails: with the pool exhausted and the Daily API down, \<open>connect\<close> raises
  a 500 whose detail is \<open>str\<close> of the 503, and \<open>bot_connect\<close> returns normally (status
  200); its success body has no session id.
\<close>

theorem connect_exhausted_status:
  "fst (connect daily_down None ''s2'' server_exhausted) =
     Raise (HTTPException 500 (Str (HTTPException 503 (Lit ''No available rooms'')))) \<and>
   http_status (fst (connect daily_down None ''s2'' server_exhausted)) = Some 500 \<and>
   fst (bot_connect spawn_ok iv_empty) =
     Done (Error_body (Str (HTTPException 503 (Lit ''No available rooms'')))) \<and>
   http_status (fst (bot_connect spawn_ok iv_empty)) = Some 200 \<and>
   fst (bot_connect spawn_ok iv_two) = Done (Room_body ''https://example.daily.co/a'' ''ua'')"
  by (simp add: connect_def connect_try_def get_room_def on_demand_def add_room_def
      priv_create_room_def send_def daily_down_def truthy_def server_exhausted_def
      pool_empty_def no_rooms_def http_status_def bot_connect_def iv_get_room_def
      caught_def iv_empty_def iv_two_def start_bot_def start_bot_try_def spawn_ok_def
      room_a_def)

section \<open>Draining the buffer at shutdown\<close>

text \<open>
  Every entry \<open>add_room\<close> appends has a room URL with a last path segment: without one
  no token is minted. So the requests of \<open>_delete_room\<close> do leave for the entries of a
  buffer that \<open>add_room\<close> has filled.
\<close>

lemma add_room_named:
  assumes "\<forall>r\<in>set (pool s). room_name_of (room_url r) \<noteq> []"
  shows "\<forall>r\<in>set (pool (snd (add_room daily s))). room_name_of (room_url r) \<noteq> []"
proof -
  obtain c s1 where c: "priv_create_room daily s = (c, s1)" by (cases "priv_create_room daily s")
  obtain u s2 where u: "priv_create_token daily (str_val c) s1 = (u, s2)"
    by (cases "priv_create_token daily (str_val c) s1")
  obtain b s3 where b: "priv_create_token daily (str_val c) s2 = (b, s3)"
    by (cases "priv_create_token daily (str_val c) s2")
  have p1: "pool s1 = pool s"
    using priv_create_room_frame [OF c] by simp
  have p3: "pool s3 = pool s"
    using p1 priv_create_token_frame [OF u] priv_create_token_frame [OF b] by simp
  have n: "truthy u \<Longrightarrow> room_name_of (str_val c) \<noteq> []"
    using u by (auto simp: priv_create_token_def Let_def truthy_def split: if_splits)
  show ?thesis
    using c u b p1 p3 n assms delete_room_frame [of daily "str_val c" s3]
    by (auto simp: add_room_def Let_def)
qed

lemma fold_delete_room:
  "\<forall>r\<in>set rs. room_name_of (room_url r) \<noteq> [] \<Longrightarrow>
     http_log (fold (\<lambda>r st. delete_room daily (room_url r) st) rs s) =
       http_log s @ map (\<lambda>r. DELETE_rooms (room_name_of (room_url r))) rs"
proof (induction rs arbitrary: s)
  case Nil
  show ?case by simp
next
  case (Cons r rs)
  have "http_log (delete_room daily (room_url r) s) =
      http_log s @ [DELETE_rooms (room_name_of (room_url r))]"
    using Cons.prems by (simp add: priv_delete_room_request)
  with Cons show ?case by simp
qed

lemma iv_delete_room_frame:
  "iv_pool (snd (iv_delete_room h u t)) = iv_pool t \<and>
   helper_log (snd (iv_delete_room h u t)) = helper_log t @ [Delete_room_by_url u]"
  by (simp add: iv_delete_room_def call_def split: helper_result.splits)

lemma iv_delete_all_pool: "iv_pool (snd (iv_delete_all h rs t)) = iv_pool t"
proof (induction rs arbitrary: t)
  case Nil
  show ?case by simp
next
  case (Cons r rs)
  obtain x t1 where d: "iv_delete_room h (room_url r) t = (x, t1)"
    by (cases "iv_delete_room h (room_url r) t")
  with iv_delete_room_frame [of h "room_url r" t] have "iv_pool t1 = iv_pool t" by simp
  with d Cons.IH [of t1] show ?case by (cases x) simp_all
qed

lemma iv_delete_all_log:
  "fst (iv_delete_all h rs t) = Done () \<Longrightarrow>
     helper_log (snd (iv_delete_all h rs t)) =
       helper_log t @ map (\<lambda>r. Delete_room_by_url (room_url r)) rs"
proof (induction rs arbitrary: t)
  case Nil
  show ?case by simp
next
  case (Cons r rs)
  obtain x t1 where d: "iv_delete_room h (room_url r) t = (x, t1)"
    by (cases "iv_delete_room h (room_url r) t")
  with iv_delete_room_frame [of h "room_url r" t]
  have l: "helper_log t1 = helper_log t @ [Delete_room_by_url (room_url r)]" by simp
  show ?case
  proof (cases x)
    case (Done u)
    with d Cons.prems have "fst (iv_delete_all h rs t1) = Done ()" by simp
    with Cons.IH [of t1] d Done l show ?thesis by simp
  next
    case (Raise e)
    with d Cons.prems show ?thesis by simp
  next
    case Blocked
    with d Cons.prems show ?thesis by simp
  qed
qed

text \<open>
  C8, as the code has it. \<open>cleanup\<close> of voice-ai-service issues one delete call per entry
  of the buffer, in the buffer's order, and leaves the buffer empty. \<open>cleanup\<close> of
  instant-voice, when no delete call raises, issues one delete call per entry as well,
  and leaves the buffer as it was: it never empties it.
\<close>

theorem drain_deletes_each_entry:
  "((\<forall>r\<in>set (pool s). room_name_of (room_url r) \<noteq> []) \<longrightarrow>
      http_log (cleanup daily s) =
        http_log s @ map (\<lambda>r. DELETE_rooms (room_name_of (room_url r))) (pool s)) \<and>
   pool (cleanup daily s) = [] \<and>
   (fst (iv_cleanup h t) = Done () \<longrightarrow>
      helper_log (snd (iv_cleanup h t)) =
        helper_log t @ map (\<lambda>r. Delete_room_by_url (room_url r)) (iv_pool t)) \<and>
   iv_pool (snd (iv_cleanup h t)) = iv_pool t"
  by (simp add: cleanup_def iv_cleanup_def fold_delete_room iv_delete_all_pool
      iv_delete_all_log)

lemma room_name_a: "room_name_of ''https://example.daily.co/a'' = ''a''"
  by (simp add: room_name_of_def)

lemma room_name_b: "room_name_of ''https://example.daily.co/b'' = ''b''"
  by (simp add: room_name_of_def)

theorem drain_deletes_each_entry_witness:
  "room_name_of (room_url room_a) \<noteq> [] \<and> room_name_of (room_url room_b) \<noteq> [] \<and>
   http_log (cleanup daily_ok pool_two) = [DELETE_rooms ''a'', DELETE_rooms ''b''] \<and>
   pool (cleanup daily_ok pool_two) = [] \<and>
   fst (iv_cleanup helper_ok iv_two) = Done () \<and>
   helper_log (snd (iv_cleanup helper_ok iv_two)) =
     [Delete_room_by_url ''https://example.daily.co/a'',
      Delete_room_by_url ''https://example.daily.co/b''] \<and>
   iv_pool (snd (iv_cleanup helper_ok iv_two)) = [room_a, room_b]"
proof -
  have d: "fst (iv_cleanup helper_ok iv_two) = Done ()"
    by (simp add: iv_cleanup_def iv_delete_room_def call_def helper_ok_def iv_two_def
        iv_empty_def)
  show ?thesis
    using drain_deletes_each_entry [of pool_two daily_ok helper_ok iv_two] d
    by (simp add: pool_two_def pool_empty_def iv_two_def iv_empty_def room_a_def room_b_def
        room_name_a room_name_b)
qed

text \<open>
  C8 as stated fails on instant-voice: after \<open>cleanup\<close> has returned, the two rooms are
  still in the buffer.
\<close>

theorem iv_cleanup_keeps_buffer:
  "iv_pool iv_two = [room_a, room_b] \<and>
   fst (iv_cleanup helper_ok iv_two) = Done () \<and>
   iv_pool (snd (iv_cleanup helper_ok iv_two)) = [room_a, room_b] \<and>
   iv_pool (snd (iv_cleanup helper_ok iv_two)) \<noteq> []"
  by (simp add: iv_cleanup_def iv_delete_room_def call_def helper_ok_def iv_two_def
      iv_empty_def)

section \<open>Stopping the workers at shutdown\<close>

lemma release_room_call:
  "map_of (room_mappings s) pid = Some url \<Longrightarrow> url \<noteq> [] \<Longrightarrow>
     helper_log (snd (release_room h pid s)) = helper_log s @ [Delete_room_by_url url]"
  by (simp add: release_room_def Let_def iv_delete_room_frame)

lemma release_room_frame:
  "proc_log (snd (release_room h pid s)) = proc_log s \<and>
   bot_procs (snd (release_room h pid s)) = bot_procs s \<and>
   (\<exists>ds. helper_log (snd (release_room h pid s)) = helper_log s @ ds) \<and>
   (q \<noteq> pid \<longrightarrow>
      map_of (room_mappings (snd (release_room h pid s))) q = map_of (room_mappings s) q)"
  by (simp add: release_room_def Let_def iv_delete_room_def call_def
      split: option.splits helper_result.splits)

lemma cleanup_proc_calls:
  "proc_log (cleanup_proc h w pid s) = proc_log s @
     (case w pid of
        Terminate_raises e \<Rightarrow> [Terminate pid]
      | Exits_in_time \<Rightarrow> [Terminate pid, Wait_for pid 5]
      | Times_out \<Rightarrow> [Terminate pid, Wait_for pid 5]
      | Wait_raises e \<Rightarrow> [Terminate pid, Wait_for pid 5])"
proof (cases "w pid")
  case Exits_in_time
  then show ?thesis
    using release_room_frame [of h pid
        "s\<lparr>proc_log := proc_log s @ [Terminate pid, Wait_for pid 5]\<rparr>"]
    by (simp add: cleanup_proc_def Let_def)
qed (simp_all add: cleanup_proc_def Let_def)

lemma cleanup_proc_frame:
  "(\<exists>ds. helper_log (cleanup_proc h w pid s) = helper_log s @ ds) \<and>
   (q \<noteq> pid \<longrightarrow> map_of (room_mappings (cleanup_proc h w pid s)) q = map_of (room_mappings s) q)"
proof (cases "w pid")
  case Exits_in_time
  then show ?thesis
    using release_room_frame [of h pid
        "s\<lparr>proc_log := proc_log s @ [Terminate pid, Wait_for pid 5]\<rparr>" q]
    by (simp add: cleanup_proc_def Let_def)
qed (simp_all add: cleanup_proc_def Let_def)

lemma fold_cleanup_calls:
  "proc_log (fold (cleanup_proc h w) pids s) = proc_log s @
     concat (map (\<lambda>pid. case w pid of
         Terminate_raises e \<Rightarrow> [Terminate pid]
       | Exits_in_time \<Rightarrow> [Terminate pid, Wait_for pid 5]
       | Times_out \<Rightarrow> [Terminate pid, Wait_for pid 5]
       | Wait_raises e \<Rightarrow> [Terminate pid, Wait_for pid 5]) pids)"
proof (induction pids arbitrary: s)
  case Nil
  show ?case by simp
next
  case (Cons p ps)
  show ?case using Cons.IH [of "cleanup_proc h w p s"] cleanup_proc_calls [of h w p s]
    by simp
qed

lemma fold_cleanup_log_grows:
  "set (helper_log s) \<subseteq> set (helper_log (fold (cleanup_proc h w) pids s))"
proof (induction pids arbitrary: s)
  case Nil
  show ?case by simp
next
  case (Cons p ps)
  obtain ds where "helper_log (cleanup_proc h w p s) = helper_log s @ ds"
    using cleanup_proc_frame [of h w p s] by blast
  with Cons.IH [of "cleanup_proc h w p s"] show ?case by auto
qed

lemma fold_cleanup_releases:
  "pid \<in> set pids \<Longrightarrow> w pid = Exits_in_time \<Longrightarrow>
   map_of (room_mappings s) pid = Some url \<Longrightarrow> url \<noteq> [] \<Longrightarrow>
     Delete_room_by_url url \<in> set (helper_log (fold (cleanup_proc h w) pids s))"
proof (induction pids arbitrary: s)
  case Nil
  then show ?case by simp
next
  case (Cons p ps)
  show ?case
  proof (cases "p = pid")
    case True
    have "helper_log (cleanup_proc h w pid s) = helper_log s @ [Delete_room_by_url url]"
      using Cons.prems release_room_call [of
          "s\<lparr>proc_log := proc_log s @ [Terminate pid, Wait_for pid 5]\<rparr>" pid url h]
      by (simp add: cleanup_proc_def Let_def)
    then have "Delete_room_by_url url \<in> set (helper_log (cleanup_proc h w pid s))" by simp
    with True fold_cleanup_log_grows [of "cleanup_proc h w pid s" h w ps]
    show ?thesis by auto
  next
    case False
    with Cons.prems have "pid \<in> set ps" by simp
    moreover have "map_of (room_mappings (cleanup_proc h w p s)) pid = Some url"
      using False Cons.prems cleanup_proc_frame [of h w p s pid] by simp
    ultimately show ?thesis
      using Cons.IH [of "cleanup_proc h w p s"] Cons.prems by simp
  qed
qed

text \<open>
  C10, as the code has it. \<open>BotManager.cleanup\<close> asks every worker to stop
  (\<open>terminate()\<close>) and then waits for its exit with a timeout of 5; these are all the
  calls it makes on a worker, so a worker that outlives the timeout is not killed. A
  worker that exits in time has its room released, when the room is still mapped.
\<close>

theorem shutdown_stops_workers:
  "proc_log (bot_manager_cleanup h w s) = proc_log s @
     concat (map (\<lambda>pid. case w pid of
         Terminate_raises e \<Rightarrow> [Terminate pid]
       | Exits_in_time \<Rightarrow> [Terminate pid, Wait_for pid 5]
       | Times_out \<Rightarrow> [Terminate pid, Wait_for pid 5]
       | Wait_raises e \<Rightarrow> [Terminate pid, Wait_for pid 5]) (map fst (bot_procs s))) \<and>
   (pid \<in> fst ` set (bot_procs s) \<and> w pid = Exits_in_time \<and>
    map_of (room_mappings s) pid = Some url \<and> url \<noteq> [] \<longrightarrow>
      Delete_room_by_url url \<in> set (helper_log (bot_manager_cleanup h w s)))"
proof (intro conjI impI)
  show "proc_log (bot_manager_cleanup h w s) = proc_log s @
     concat (map (\<lambda>pid. case w pid of
         Terminate_raises e \<Rightarrow> [Terminate pid]
       | Exits_in_time \<Rightarrow> [Terminate pid, Wait_for pid 5]
       | Times_out \<Rightarrow> [Terminate pid, Wait_for pid 5]
       | Wait_raises e \<Rightarrow> [Terminate pid, Wait_for pid 5]) (map fst (bot_procs s)))"
    by (simp add: bot_manager_cleanup_def clear_mappings_def fold_cleanup_calls)
next
  assume "pid \<in> fst ` set (bot_procs s) \<and> w pid = Exits_in_time \<and>
    map_of (room_mappings s) pid = Some url \<and> url \<noteq> []"
  then show "Delete_room_by_url url \<in> set (helper_log (bot_manager_cleanup h w s))"
    using fold_cleanup_releases [of pid "map fst (bot_procs s)" w s url h]
    by (simp add: bot_manager_cleanup_def clear_mappings_def)
qed

theorem shutdown_stops_workers_witness:
  "7 \<in> fst ` set (bot_procs iv_running) \<and>
   map_of (room_mappings iv_running) 7 = Some ''https://example.daily.co/a'' \<and>
   proc_log (bot_manager_cleanup helper_ok (\<lambda>p. Exits_in_time) iv_running) =
     [Terminate 7, Wait_for 7 5] \<and>
   Delete_room_by_url ''https://example.daily.co/a'' \<in>
     set (helper_log (bot_manager_cleanup helper_ok (\<lambda>p. Exits_in_time) iv_running))"
  using shutdown_stops_workers [of helper_ok "\<lambda>p. Exits_in_time" iv_running 7
      "''https://example.daily.co/a''"]
  by (simp add: iv_running_def iv_empty_def)

text \<open>
  C10 as stated fails: when the wait times out, no \<open>kill()\<close> follows and no delete call
  is made for the room, whose mapping is cleared.
\<close>

theorem shutdown_timeout_no_kill:
  "proc_log (bot_manager_cleanup helper_ok (\<lambda>p. Times_out) iv_running) =
     [Terminate 7, Wait_for 7 5] \<and>
   Kill 7 \<notin> set (proc_log (bot_manager_cleanup helper_ok (\<lambda>p. Times_out) iv_running)) \<and>
   helper_log (bot_manager_cleanup helper_ok (\<lambda>p. Times_out) iv_running) = [] \<and>
   room_mappings (bot_manager_cleanup helper_ok (\<lambda>p. Times_out) iv_running) = []"
  by (simp add: bot_manager_cleanup_def cleanup_proc_def clear_mappings_def iv_running_def
      iv_empty_def Let_def)

section \<open>One release per session\<close>

text \<open>
  A delete call of the termination paths is made by \<open>release_room\<close> alone, and only
  after it has popped the session's entry from \<open>room_mappings\<close>. So along every step the
  delete calls made for a room plus the sessions still mapped to it cannot grow.
\<close>

lemma set_deleted_rooms: "u \<in> set (deleted_rooms cs) \<longleftrightarrow> Delete_room_by_url u \<in> set cs"
proof (induction cs)
  case Nil
  show ?case by simp
next
  case (Cons c cs)
  then show ?case by (cases c) auto
qed

lemma delete_count_le:
  "count_list (map snd (AList.delete k al)) u \<le> count_list (map snd al) u"
  by (induction al) auto

lemma delete_count_mapped:
  "map_of al k = Some v \<Longrightarrow>
     count_list (map snd (AList.delete k al)) u + (if u = v then 1 else 0) \<le>
       count_list (map snd al) u"
proof (induction al)
  case Nil
  then show ?case by simp
next
  case (Cons p ps)
  obtain k' v' where p: "p = (k', v')" by (cases p)
  show ?case
  proof (cases "k' = k")
    case True
    with Cons.prems p have "v' = v" by simp
    with True p delete_count_le [of k ps u] show ?thesis by simp
  next
    case False
    with Cons.prems p have "map_of ps k = Some v" by simp
    with Cons.IH False p show ?thesis by simp
  qed
qed

lemma release_room_balance:
  "count_list (deleted_rooms (helper_log (snd (release_room h pid s)))) u +
     count_list (map snd (room_mappings (snd (release_room h pid s)))) u \<le>
   count_list (deleted_rooms (helper_log s)) u + count_list (map snd (room_mappings s)) u"
proof (cases "map_of (room_mappings s) pid")
  case None
  then show ?thesis by (simp add: release_room_def)
next
  case (Some url)
  note m = delete_count_mapped [OF Some, of u]
  show ?thesis
  proof (cases "url = []")
    case True
    with Some m show ?thesis by (simp add: release_room_def Let_def split: if_splits)
  next
    case False
    have r: "snd (release_room h pid s) =
        (s\<lparr>room_mappings := AList.delete pid (room_mappings s)\<rparr>)
          \<lparr>helper_log := helper_log s @ [Delete_room_by_url url]\<rparr>"
      using Some False
      by (simp add: release_room_def Let_def iv_delete_room_def call_def
          split: helper_result.splits)
    show ?thesis using m by (simp add: r deleted_rooms_append split: if_splits)
  qed
qed

lemma step_balance:
  "count_list (deleted_rooms (helper_log (step h w ev s))) u +
     count_list (map snd (room_mappings (step h w ev s))) u \<le>
   count_list (deleted_rooms (helper_log s)) u + count_list (map snd (room_mappings s)) u"
proof (cases ev)
  case (Monitor_release pid)
  then show ?thesis using release_room_balance [of h pid s u] by simp
next
  case (Monitor_forget pid)
  then show ?thesis by (simp add: forget_proc_def split: option.splits)
next
  case (Shutdown_turn pid)
  show ?thesis
  proof (cases "w pid")
    case Exits_in_time
    with Shutdown_turn show ?thesis
      using release_room_balance [of h pid
          "s\<lparr>proc_log := proc_log s @ [Terminate pid, Wait_for pid 5]\<rparr>" u]
      by (simp add: cleanup_proc_def Let_def)
  qed (simp_all add: Shutdown_turn cleanup_proc_def Let_def)
next
  case Shutdown_clear
  then show ?thesis by (simp add: clear_mappings_def)
qed

lemma run_balance:
  "count_list (deleted_rooms (helper_log (run h w evs s))) u +
     count_list (map snd (room_mappings (run h w evs s))) u \<le>
   count_list (deleted_rooms (helper_log s)) u + count_list (map snd (room_mappings s)) u"
  unfolding run_def
proof (induction evs arbitrary: s)
  case Nil
  show ?case by simp
next
  case (Cons ev evs)
  show ?case using Cons.IH [of "step h w ev s"] step_balance [of h w ev s u] by simp
qed

lemma step_log_extends: "\<exists>ds. helper_log (step h w ev s) = helper_log s @ ds"
proof (cases ev)
  case (Monitor_release pid)
  then show ?thesis using release_room_frame [of h pid s] by simp
next
  case (Monitor_forget pid)
  then show ?thesis by (simp add: forget_proc_def split: option.splits)
next
  case (Shutdown_turn pid)
  then show ?thesis using cleanup_proc_frame [of h w pid s] by simp
next
  case Shutdown_clear
  then show ?thesis by (simp add: clear_mappings_def)
qed

lemma run_log_extends: "\<exists>ds. helper_log (run h w evs s) = helper_log s @ ds"
  unfolding run_def
proof (induction evs arbitrary: s)
  case Nil
  show ?case by simp
next
  case (Cons ev evs)
  obtain ds where a: "helper_log (step h w ev s) = helper_log s @ ds"
    using step_log_extends [of h w ev s] by blast
  obtain es where "helper_log (fold (step h w) evs (step h w ev s)) =
      helper_log (step h w ev s) @ es"
    using Cons.IH [of "step h w ev s"] by blast
  with a show ?case by simp
qed

lemma run_deleted_grows:
  "count_list (deleted_rooms (helper_log s)) u \<le>
     count_list (deleted_rooms (helper_log (run h w evs s))) u"
proof -
  obtain ds where "helper_log (run h w evs s) = helper_log s @ ds"
    using run_log_extends [of h w evs s] by blast
  then show ?thesis by (simp add: deleted_rooms_append)
qed

text \<open>
  The shutdown and the monitor, run without interruption, are runs of these steps.
\<close>

lemma bot_manager_cleanup_steps:
  "bot_manager_cleanup h w s =
     run h w (map Shutdown_turn (map fst (bot_procs s)) @ [Shutdown_clear]) s"
proof -
  have "fold (step h w) (map Shutdown_turn pids) t = fold (cleanup_proc h w) pids t"
    for pids t
    by (induction pids arbitrary: t) simp_all
  from this [of "map fst (bot_procs s)" s] show ?thesis
    by (simp add: bot_manager_cleanup_def run_def del: map_map)
qed

lemma monitor_process_steps:
  "snd (monitor_process h pid s0 s) = s0 \<or>
   snd (monitor_process h pid s0 s) = run h w [Monitor_release pid] s \<or>
   snd (monitor_process h pid s0 s) = run h w [Monitor_release pid, Monitor_forget pid] s"
proof (cases "map_of (bot_procs s0) pid")
  case None
  then show ?thesis by (simp add: monitor_process_def)
next
  case (Some p)
  obtain x s1 where r: "release_room h pid s = (x, s1)" by (cases "release_room h pid s")
  with Some show ?thesis
    by (cases x) (simp_all add: monitor_process_def run_def)
qed

lemma disconnect_known:
  assumes "map_of (active_bots srv) sid = Some vbot"
  shows "fst (disconnect cancel sid srv) = Done (DisconnectResponse True) \<and>
    sid \<notin> fst ` set (active_bots (snd (disconnect cancel sid srv))) \<and>
    room_pool (snd (disconnect cancel sid srv)) = room_pool srv"
  using assms
  by (simp add: disconnect_def bot_disconnect_def delete_notin_dom)

text \<open>
  C1, as the code has it. In instant-voice, however the steps of the monitors and of
  the shutdown interleave, the delete calls made for a room never exceed the sessions
  that were mapped to it: each call pops one session's mapping first. A room mapped to
  one session, with no delete call so far, therefore never gets two; and it gets at
  least one (so exactly one) once the monitor of its worker, or a shutdown turn whose
  wait ended in time, runs while the room is still mapped. In voice-ai-service
  \<open>disconnect\<close> of a registered session answers success and removes the session
  without a delete call: the pool and its request log are as before.
\<close>

theorem release_at_most_once:
  "count_list (deleted_rooms (helper_log (run h w evs s))) u +
     count_list (map snd (room_mappings (run h w evs s))) u \<le>
   count_list (deleted_rooms (helper_log s)) u + count_list (map snd (room_mappings s)) u \<and>
   (count_list (map snd (room_mappings s)) u \<le> 1 \<and>
    Delete_room_by_url u \<notin> set (helper_log s) \<longrightarrow>
      count_list (deleted_rooms (helper_log (run h w evs s))) u \<le> 1) \<and>
   (map_of (room_mappings s) pid = Some u \<and> u \<noteq> [] \<and>
    (ev = Monitor_release pid \<or> ev = Shutdown_turn pid \<and> w pid = Exits_in_time) \<longrightarrow>
      count_list (deleted_rooms (helper_log s)) u + 1 \<le>
        count_list (deleted_rooms (helper_log (run h w (ev # evs) s))) u) \<and>
   (count_list (map snd (room_mappings s)) u \<le> 1 \<and>
    Delete_room_by_url u \<notin> set (helper_log s) \<and>
    map_of (room_mappings s) pid = Some u \<and> u \<noteq> [] \<and>
    (ev = Monitor_release pid \<or> ev = Shutdown_turn pid \<and> w pid = Exits_in_time) \<longrightarrow>
      count_list (deleted_rooms (helper_log (run h w (ev # evs) s))) u = 1) \<and>
   (sid \<in> fst ` set (active_bots srv) \<longrightarrow>
      fst (disconnect cancel sid srv) = Done (DisconnectResponse True) \<and>
      sid \<notin> fst ` set (active_bots (snd (disconnect cancel sid srv))) \<and>
      room_pool (snd (disconnect cancel sid srv)) = room_pool srv)"
proof -
  have none: "count_list (deleted_rooms (helper_log s)) u = 0"
    if "Delete_room_by_url u \<notin> set (helper_log s)"
    using that by (simp add: set_deleted_rooms)
  have twice: "count_list (deleted_rooms (helper_log (run h w es s))) u \<le> 1"
    if "count_list (map snd (room_mappings s)) u \<le> 1"
      and "Delete_room_by_url u \<notin> set (helper_log s)" for es
    using that none run_balance [of h w es s u] by linarith
  have once: "count_list (deleted_rooms (helper_log s)) u + 1 \<le>
      count_list (deleted_rooms (helper_log (run h w (ev # evs) s))) u"
    if a: "map_of (room_mappings s) pid = Some u \<and> u \<noteq> [] \<and>
      (ev = Monitor_release pid \<or> ev = Shutdown_turn pid \<and> w pid = Exits_in_time)"
  proof -
    have "helper_log (step h w ev s) = helper_log s @ [Delete_room_by_url u]"
    proof (cases "ev = Monitor_release pid")
      case True
      with a show ?thesis by (simp add: release_room_call)
    next
      case False
      with a have "ev = Shutdown_turn pid" and "w pid = Exits_in_time" by auto
      with a show ?thesis
        using release_room_call [of
            "s\<lparr>proc_log := proc_log s @ [Terminate pid, Wait_for pid 5]\<rparr>" pid u h]
        by (simp add: cleanup_proc_def Let_def)
    qed
    then have "count_list (deleted_rooms (helper_log (step h w ev s))) u =
        count_list (deleted_rooms (helper_log s)) u + 1"
      by (simp add: deleted_rooms_append)
    with run_deleted_grows [of "step h w ev s" u h w evs]
    show ?thesis by (simp add: run_def)
  qed
  have exactly: "count_list (deleted_rooms (helper_log (run h w (ev # evs) s))) u = 1"
    if "count_list (map snd (room_mappings s)) u \<le> 1 \<and>
      Delete_room_by_url u \<notin> set (helper_log s) \<and>
      map_of (room_mappings s) pid = Some u \<and> u \<noteq> [] \<and>
      (ev = Monitor_release pid \<or> ev = Shutdown_turn pid \<and> w pid = Exits_in_time)"
    using that twice [of "ev # evs"] once none by force
  have known: "fst (disconnect cancel sid srv) = Done (DisconnectResponse True) \<and>
      sid \<notin> fst ` set (active_bots (snd (disconnect cancel sid srv))) \<and>
      room_pool (snd (disconnect cancel sid srv)) = room_pool srv"
    if "sid \<in> fst ` set (active_bots srv)"
  proof -
    from that obtain vbot where "map_of (active_bots srv) sid = Some vbot"
      by (cases "map_of (active_bots srv) sid") (auto simp: map_of_eq_None_iff)
    then show ?thesis by (rule disconnect_known)
  qed
  show ?thesis
    using run_balance [of h w evs s u] twice [of evs] once exactly known
    by (intro conjI impI) blast+
qed

theorem release_at_most_once_witness:
  "count_list (map snd (room_mappings iv_running)) ''https://example.daily.co/a'' \<le> 1 \<and>
   Delete_room_by_url ''https://example.daily.co/a'' \<notin> set (helper_log iv_running) \<and>
   map_of (room_mappings iv_running) 7 = Some ''https://example.daily.co/a'' \<and>
   count_list (deleted_rooms (helper_log (run helper_ok (\<lambda>p. Exits_in_time)
     [Monitor_release 7, Shutdown_turn 7, Monitor_forget 7, Shutdown_clear] iv_running)))
     ''https://example.daily.co/a'' = 1 \<and>
   count_list (deleted_rooms (helper_log (run helper_ok (\<lambda>p. Exits_in_time)
     [Shutdown_turn 7, Monitor_release 7, Shutdown_clear, Monitor_forget 7] iv_running)))
     ''https://example.daily.co/a'' = 1 \<and>
   ''s1'' \<in> fst ` set (active_bots server_one) \<and>
   fst (disconnect (\<lambda>i. None) ''s1'' server_one) = Done (DisconnectResponse True) \<and>
   ''s1'' \<notin> fst ` set (active_bots (snd (disconnect (\<lambda>i. None) ''s1'' server_one))) \<and>
   room_pool (snd (disconnect (\<lambda>i. None) ''s1'' server_one)) = Some pool_two"
proof -
  have c: "count_list (map snd (room_mappings iv_running)) ''https://example.daily.co/a'' \<le> 1"
    by (simp add: iv_running_def iv_empty_def)
  have n: "Delete_room_by_url ''https://example.daily.co/a'' \<notin> set (helper_log iv_running)"
    by (simp add: iv_running_def iv_empty_def)
  have z: "count_list (deleted_rooms (helper_log iv_running)) ''https://example.daily.co/a'' = 0"
    by (simp add: iv_running_def iv_empty_def)
  have m: "map_of (room_mappings iv_running) 7 = Some ''https://example.daily.co/a''"
    by (simp add: iv_running_def iv_empty_def)
  have k: "''s1'' \<in> fst ` set (active_bots server_one)"
    by (simp add: server_one_def)
  note first = release_at_most_once [of helper_ok "\<lambda>p. Exits_in_time"
      "Monitor_release 7 # [Shutdown_turn 7, Monitor_forget 7, Shutdown_clear]" iv_running
      "''https://example.daily.co/a''" 7 "Monitor_release 7" "''s1''" server_one "\<lambda>i. None"]
  note monitor = release_at_most_once [of helper_ok "\<lambda>p. Exits_in_time"
      "[Shutdown_turn 7, Monitor_forget 7, Shutdown_clear]" iv_running
      "''https://example.daily.co/a''" 7 "Monitor_release 7" "''s1''" server_one "\<lambda>i. None"]
  note second = release_at_most_once [of helper_ok "\<lambda>p. Exits_in_time"
      "Shutdown_turn 7 # [Monitor_release 7, Shutdown_clear, Monitor_forget 7]" iv_running
      "''https://example.daily.co/a''" 7 "Shutdown_turn 7" "''s1''" server_one "\<lambda>i. None"]
  note shutdown = release_at_most_once [of helper_ok "\<lambda>p. Exits_in_time"
      "[Monitor_release 7, Shutdown_clear, Monitor_forget 7]" iv_running
      "''https://example.daily.co/a''" 7 "Shutdown_turn 7" "''s1''" server_one "\<lambda>i. None"]
  have a: "count_list (deleted_rooms (helper_log (run helper_ok (\<lambda>p. Exits_in_time)
     [Monitor_release 7, Shutdown_turn 7, Monitor_forget 7, Shutdown_clear] iv_running)))
     ''https://example.daily.co/a'' = 1"
    using first monitor c n z m by force
  have b: "count_list (deleted_rooms (helper_log (run helper_ok (\<lambda>p. Exits_in_time)
     [Shutdown_turn 7, Monitor_release 7, Shutdown_clear, Monitor_forget 7] iv_running)))
     ''https://example.daily.co/a'' = 1"
    using second shutdown c n z m by force
  have d: "fst (disconnect (\<lambda>i. None) ''s1'' server_one) = Done (DisconnectResponse True) \<and>
      ''s1'' \<notin> fst ` set (active_bots (snd (disconnect (\<lambda>i. None) ''s1'' server_one))) \<and>
      room_pool (snd (disconnect (\<lambda>i. None) ''s1'' server_one)) = room_pool server_one"
    using first k by blast
  from c n m a b k d show ?thesis by (simp add: server_one_def)
qed

text \<open>
  C1 as stated fails: a session can end with no delete call for its room. \<open>disconnect\<close>
  of voice-ai-service removes the session and sends nothing to the Daily API; in
  instant-voice, a shutdown whose wait times out clears the mapping, and the monitor
  that resumes afterwards finds no room to release (its \<open>del\<close> raises \<open>KeyError\<close>).
\<close>

theorem session_ends_without_release:
  "fst (disconnect (\<lambda>i. None) ''s1'' server_one) = Done (DisconnectResponse True) \<and>
   active_bots (snd (disconnect (\<lambda>i. None) ''s1'' server_one)) = [] \<and>
   room_pool (snd (disconnect (\<lambda>i. None) ''s1'' server_one)) = Some pool_two \<and>
   http_log pool_two = [] \<and>
   map_of (room_mappings iv_running) 7 = Some ''https://example.daily.co/a'' \<and>
   bot_procs (bot_manager_cleanup helper_ok (\<lambda>p. Times_out) iv_running) = [] \<and>
   room_mappings (bot_manager_cleanup helper_ok (\<lambda>p. Times_out) iv_running) = [] \<and>
   fst (monitor_process helper_ok 7 iv_running
     (bot_manager_cleanup helper_ok (\<lambda>p. Times_out) iv_running)) = Raise (PyError ''KeyError'') \<and>
   count_list (deleted_rooms (helper_log (snd (monitor_process helper_ok 7 iv_running
     (bot_manager_cleanup helper_ok (\<lambda>p. Times_out) iv_running)))))
     ''https://example.daily.co/a'' = 0"
  by (simp add: disconnect_def bot_disconnect_def server_one_def bot_a_def pool_two_def
      pool_empty_def bot_manager_cleanup_def cleanup_proc_def clear_mappings_def
      monitor_process_def release_room_def forget_proc_def iv_running_def iv_empty_def Let_def)

end
